theory Spec2Isabelle
  imports Main "HOL-Library.Multiset"
begin

section \<open>Flashcard progress tracker (QuizMasterApp)\<close>

text \<open>
  The card state of \<^verbatim>\<open>QuizMasterApp\<close> is
  \<^verbatim>\<open>useState<{ front: string; back: string; status: CardStatus }[]>([])\<close> with
  \<^verbatim>\<open>type CardStatus = 'new' | 'mastered' | 'needs review'\<close>.
\<close>

datatype CardStatus = New | Mastered | NeedsReview

record card =
  front :: string
  "back" :: string
  status :: CardStatus

text \<open>
  \<^verbatim>\<open>currentCards.map((card, index) => index === indexToUpdate ? { ...card, status: newStatus } : card)\<close>:
  the callback of \<^verbatim>\<open>map\<close> receives the running index, here the argument \<open>i\<close>.
\<close>

fun mapIndexed :: "(nat \<Rightarrow> 'a \<Rightarrow> 'b) \<Rightarrow> nat \<Rightarrow> 'a list \<Rightarrow> 'b list" where
  "mapIndexed f i [] = []"
| "mapIndexed f i (x # xs) = f i x # mapIndexed f (Suc i) xs"

definition updateCardStatus :: "nat \<Rightarrow> CardStatus \<Rightarrow> card list \<Rightarrow> card list" where
  "updateCardStatus indexToUpdate newStatus currentCards =
     mapIndexed (\<lambda>index card. if index = indexToUpdate then card\<lparr>status := newStatus\<rparr> else card)
       0 currentCards"

subsection \<open>Questions built from cards\<close>

text \<open>
  \<^verbatim>\<open>const shuffle = (arr) => arr.map((a) => [Math.random(), a]).sort((a, b) => a[0] - b[0]).map((a) => a[1]);\<close>

  The random source is explicit: \<open>rnd k\<close> is the value the \<open>k\<close>-th call of
  \<^verbatim>\<open>Math.random()\<close> returns, and every function that draws takes the number of calls made
  so far and returns it updated. The keys are only compared, so any linear order stands for the
  doubles of \<^verbatim>\<open>Math.random\<close>. \<^verbatim>\<open>Array.prototype.sort\<close> is stable, and so is
  \<^const>\<open>sort_key\<close>.
\<close>

definition shuffle :: "(nat \<Rightarrow> 'k::linorder) \<Rightarrow> nat \<Rightarrow> 'a list \<Rightarrow> 'a list \<times> nat" where
  "shuffle rnd n arr =
     (map snd (sort_key fst (zip (map rnd [n..<n + length arr]) arr)), n + length arr)"

text \<open>\<^verbatim>\<open>Array.prototype.indexOf\<close>: the first index holding the value, \<open>-1\<close> when there is none.\<close>

fun indexFrom :: "nat \<Rightarrow> 'a list \<Rightarrow> 'a \<Rightarrow> int" where
  "indexFrom k [] x = - 1"
| "indexFrom k (y # ys) x = (if y = x then int k else indexFrom (Suc k) ys x)"

definition indexOf :: "'a list \<Rightarrow> 'a \<Rightarrow> int" where
  "indexOf xs x = indexFrom 0 xs x"

datatype QType = MC | TF | Fill

text \<open>
  The explanation of a question made from a card is a fixed Vietnamese sentence around the card's
  back and front text; the model keeps the two interpolated texts.
\<close>

datatype Explanation = CardExplanation string string

text \<open>
  The question objects of \<^verbatim>\<open>QuizMasterApp\<close>,
  \<^verbatim>\<open>{ id, type, q, opts, a, explanation }\<close>; the fields carry the prefix \<open>q_\<close>.
\<close>

record question =
  q_id :: nat
  q_type :: QType
  q_q :: string
  q_opts :: "string list"
  q_a :: int
  q_explanation :: Explanation

text \<open>
  The body of the loop of \<^verbatim>\<open>makeMCFromCards\<close> for \<^verbatim>\<open>correct = pool[i]\<close>:
  \<^verbatim>\<open>
  const distractors = shuffle(cards.filter((c) => c.front !== correct.front)).slice(0, 3).map((c) => c.back);
  const opts = shuffle([correct.back, ...distractors]);
  qs.push({ id: i + 1, type: "mc", q: correct.front, opts, a: opts.indexOf(correct.back), explanation: ... });
  \<close>
\<close>

definition makeQuestion ::
  "(nat \<Rightarrow> 'k::linorder) \<Rightarrow> nat \<Rightarrow> card list \<Rightarrow> nat \<Rightarrow> card \<Rightarrow> question \<times> nat" where
  "makeQuestion rnd n cards i correct =
     (let (others, n1) = shuffle rnd n (filter (\<lambda>c. front c \<noteq> front correct) cards);
          distractors = map back (take 3 others);
          (opts, n2) = shuffle rnd n1 (back correct # distractors)
      in (\<lparr>q_id = i + 1, q_type = MC, q_q = front correct, q_opts = opts,
           q_a = indexOf opts (back correct),
           q_explanation = CardExplanation (back correct) (front correct)\<rparr>, n2))"

text \<open>The \<^verbatim>\<open>for\<close> loop, over the cards \<^verbatim>\<open>pool[i], pool[i+1], ...\<close> still to be turned into questions.\<close>

fun pushQuestions ::
  "(nat \<Rightarrow> 'k::linorder) \<Rightarrow> nat \<Rightarrow> card list \<Rightarrow> nat \<Rightarrow> card list \<Rightarrow> question list \<times> nat" where
  "pushQuestions rnd n cards i [] = ([], n)"
| "pushQuestions rnd n cards i (correct # rest) =
     (let (qu, n1) = makeQuestion rnd n cards i correct;
          (qs, n2) = pushQuestions rnd n1 cards (Suc i) rest
      in (qu # qs, n2))"

text \<open>
  \<^verbatim>\<open>function makeMCFromCards(cards, count = 5)\<close> (\<open>cnt\<close> is its \<^verbatim>\<open>count\<close>): the loop runs for
  \<^verbatim>\<open>i < Math.min(count, pool.length)\<close>.
\<close>

definition makeMCFromCards ::
  "(nat \<Rightarrow> 'k::linorder) \<Rightarrow> nat \<Rightarrow> card list \<Rightarrow> nat \<Rightarrow> question list \<times> nat" where
  "makeMCFromCards rnd n cards cnt =
     (let (pool, n1) = shuffle rnd n cards
      in pushQuestions rnd n1 cards 0 (take (min cnt (length pool)) pool))"

text \<open>
  \<^verbatim>\<open>useCardsToQuiz\<close> filters the cards by the chosen strategy, alerts and changes nothing when
  no card is left, and otherwise calls
  \<^verbatim>\<open>makeMCFromCards(cardPool, Math.min(count, cardPool.length))\<close>.
\<close>

datatype Strategy = StratAll | StratNeedsReview | StratNotMastered

definition cardPoolOf :: "Strategy \<Rightarrow> card list \<Rightarrow> card list" where
  "cardPoolOf quizFromCardsStrategy cards =
     (if quizFromCardsStrategy = StratNeedsReview then filter (\<lambda>c. status c = NeedsReview) cards
      else if quizFromCardsStrategy = StratNotMastered then filter (\<lambda>c. status c \<noteq> Mastered) cards
      else cards)"

datatype Alert = NoMatchingCards

definition useCardsToQuiz ::
  "(nat \<Rightarrow> 'k::linorder) \<Rightarrow> nat \<Rightarrow> Strategy \<Rightarrow> nat \<Rightarrow> card list \<Rightarrow> Alert + question list \<times> nat" where
  "useCardsToQuiz rnd n quizFromCardsStrategy cnt cards =
     (let cardPool = cardPoolOf quizFromCardsStrategy cards
      in if length cardPool = 0 then Inl NoMatchingCards
         else Inr (makeMCFromCards rnd n cardPool (min cnt (length cardPool))))"

section \<open>Values exchanged with the content generator and the local store\<close>

text \<open>
  The values \<^verbatim>\<open>JSON.parse\<close> returns. Numbers are restricted to integers: the only
  numbers the modelled code inspects are option indices and scores.
\<close>

datatype json =
    JNull
  | JBool bool
  | JNum int
  | JStr string
  | JArr "json list"
  | JObj "(string \<times> json) list"

text \<open>
  A text handed to \<^verbatim>\<open>JSON.parse\<close>, classified by what the parser does with it: the empty
  string (which is also falsy in a condition), a text that is not JSON, or a text that parses to
  a value. \<^verbatim>\<open>trim()\<close> removes only white space, which \<^verbatim>\<open>JSON.parse\<close> skips anyway.
\<close>

datatype Text = EmptyText | BadText | JsonText json

datatype Exn =
    ApiKeyNotSet
  | ApiKeyRequired
  | Upstream string
  | TypeError
  | SyntaxError
  | NoValidQuestions

fun JSON_parse :: "Text \<Rightarrow> Exn + json" where
  "JSON_parse EmptyText = Inl SyntaxError"
| "JSON_parse BadText = Inl SyntaxError"
| "JSON_parse (JsonText j) = Inr j"

text \<open>
  \<^verbatim>\<open>v.key\<close> for a parsed value and one of the keys the code reads
  (\<^verbatim>\<open>question\<close>, \<^verbatim>\<open>options\<close>, \<^verbatim>\<open>correctAnswerIndex\<close>, \<^verbatim>\<open>explanation\<close>, \<^verbatim>\<open>id\<close>):
  \<^verbatim>\<open>null\<close> throws a TypeError, an object gives the member or \<^verbatim>\<open>undefined\<close>
  (\<open>None\<close>), every other value gives \<^verbatim>\<open>undefined\<close>.
\<close>

fun getProp :: "json \<Rightarrow> string \<Rightarrow> Exn + json option" where
  "getProp JNull key = Inl TypeError"
| "getProp (JObj kvs) key = Inr (map_of kvs key)"
| "getProp v key = Inr None"

section \<open>The quiz session of KidGeniusApp\<close>

datatype Stage = Setup | Quiz | Result

record settings =
  grade :: string
  subject :: string
  difficulty :: string
  topic :: string

text \<open>
  An entry of the list of wrong answers sent to the tutor: a text built from the question and
  the option the student chose (\<open>None\<close> when the question was not answered). The model keeps the
  two values the text is built from.
\<close>

datatype WrongAnswer = WrongAnswer json "int option"

text \<open>
  The requests sent to the generative service, by the values interpolated into the prompt: for a
  quiz the grade, the subject, the topic (\<open>None\<close> when \<^verbatim>\<open>settings.topic\<close> is empty and the
  default wording is used) and the difficulty; for the tutor feedback the final score and the
  wrong answers.
\<close>

datatype Request =
    QuizRequest string string "string option" string
  | TutorRequest int "WrongAnswer list"

text \<open>
  What \<^verbatim>\<open>await ai.models.generateContent(...)\<close> does: it throws, or it returns a response
  whose \<^verbatim>\<open>text\<close> is \<^verbatim>\<open>undefined\<close> (\<open>None\<close>) or a string.
\<close>

datatype Outcome = Thrown string | Response "Text option"

text \<open>
  The feedback shown after a quiz: the fixed message for a perfect score, the fixed error message,
  or the object returned by the service.
\<close>

datatype Feedback = Celebration | FeedbackError | FromService json

text \<open>
  The state of the component (\<^verbatim>\<open>useState\<close> hooks). \<^verbatim>\<open>error\<close> is \<open>None\<close> for the empty
  string and otherwise holds the exception whose message is appended to the fixed prefix.
  \<^verbatim>\<open>selectedAnswer\<close> is \<^verbatim>\<open>{ index, isCorrect }\<close> or \<^verbatim>\<open>null\<close>.
\<close>

record kidGenius =
  stage :: Stage
  settings :: settings
  questions :: "json list"
  userAnswers :: "nat \<rightharpoonup> int"
  currentQuestionIndex :: nat
  score :: int
  selectedAnswer :: "(int \<times> bool) option"
  showFeedback :: bool
  isLoading :: bool
  error :: "Exn option"
  isFromPath :: bool
  aiTutorFeedback :: "Feedback option"

definition quizRequest :: "settings \<Rightarrow> Request" where
  "quizRequest se =
     QuizRequest (grade se) (subject se) (if topic se = [] then None else Some (topic se))
       (difficulty se)"

text \<open>
  The \<^verbatim>\<open>try\<close> block of \<^verbatim>\<open>generateKidGeniusQuiz\<close> up to the check of the parsed value:
  \<^verbatim>\<open>
  if (!apiKey) throw new Error("API Key is not set.");
  const response = await ai.models.generateContent({...});
  const generatedQuestions = JSON.parse(response.text.trim());
  if (!Array.isArray(generatedQuestions) || generatedQuestions.length === 0) {
    throw new Error(...);   // the message for "no valid questions"
  }
  \<close>
\<close>

definition requestQuestions ::
  "string option \<Rightarrow> (Request \<Rightarrow> Outcome) \<Rightarrow> settings \<Rightarrow> Exn + json list" where
  "requestQuestions apiKey ai se =
     (if apiKey = None \<or> apiKey = Some [] then Inl ApiKeyNotSet
      else case ai (quizRequest se) of
        Thrown msg \<Rightarrow> Inl (Upstream msg)
      | Response None \<Rightarrow> Inl TypeError
      | Response (Some t) \<Rightarrow>
          (case JSON_parse t of
             Inl e \<Rightarrow> Inl e
           | Inr generatedQuestions \<Rightarrow>
               (case generatedQuestions of
                  JArr xs \<Rightarrow> if length xs = 0 then Inl NoValidQuestions else Inr xs
                | _ \<Rightarrow> Inl NoValidQuestions)))"

definition generateKidGeniusQuiz ::
  "string option \<Rightarrow> (Request \<Rightarrow> Outcome) \<Rightarrow> bool \<Rightarrow> kidGenius \<Rightarrow> kidGenius" where
  "generateKidGeniusQuiz apiKey ai fromPath st =
     (let st1 = st\<lparr>isLoading := True, error := None, isFromPath := fromPath\<rparr>
      in case requestQuestions apiKey ai (settings st) of
           Inr generatedQuestions \<Rightarrow>
             st1\<lparr>questions := generatedQuestions, currentQuestionIndex := 0, score := 0,
                 selectedAnswer := None, showFeedback := False, userAnswers := Map.empty,
                 aiTutorFeedback := None, stage := Quiz, isLoading := False\<rparr>
         | Inl err \<Rightarrow> st1\<lparr>error := Some err, isLoading := False\<rparr>)"

text \<open>
  The schema sent with the request (\<^verbatim>\<open>quizSchema\<close>, as the items of an array): an object
  with the required members \<^verbatim>\<open>question\<close> (string), \<^verbatim>\<open>options\<close> (array of strings),
  \<^verbatim>\<open>correctAnswerIndex\<close> (number) and \<^verbatim>\<open>explanation\<close> (string). The code never checks a
  response against it; the predicate says what the schema asks for.
\<close>

fun isJStr :: "json \<Rightarrow> bool" where
  "isJStr (JStr s) = True"
| "isJStr v = False"

fun conformsQuestion :: "json \<Rightarrow> bool" where
  "conformsQuestion (JObj kvs) =
     ((case map_of kvs ''question'' of Some (JStr s) \<Rightarrow> True | _ \<Rightarrow> False) \<and>
      (case map_of kvs ''options'' of Some (JArr os) \<Rightarrow> list_all isJStr os | _ \<Rightarrow> False) \<and>
      (case map_of kvs ''correctAnswerIndex'' of Some (JNum i) \<Rightarrow> True | _ \<Rightarrow> False) \<and>
      (case map_of kvs ''explanation'' of Some (JStr s) \<Rightarrow> True | _ \<Rightarrow> False))"
| "conformsQuestion v = False"

fun conformsQuizSchema :: "json \<Rightarrow> bool" where
  "conformsQuizSchema (JArr xs) = list_all conformsQuestion xs"
| "conformsQuizSchema v = False"

text \<open>
  The invariant of the data model for a multiple-choice question of this component:
  \<^verbatim>\<open>correctAnswerIndex\<close> is an index into \<^verbatim>\<open>options\<close>.
\<close>

fun validAnswerIndex :: "json \<Rightarrow> bool" where
  "validAnswerIndex (JObj kvs) =
     (case (map_of kvs ''options'', map_of kvs ''correctAnswerIndex'') of
        (Some (JArr os), Some (JNum i)) \<Rightarrow> 0 \<le> i \<and> i < int (length os)
      | _ \<Rightarrow> False)"
| "validAnswerIndex v = False"

text \<open>
  \<^verbatim>\<open>
  const handleAnswerSelect = (optionIndex) => {
      if (showFeedback) return;
      const currentQuestion = questions[currentQuestionIndex];
      const isCorrect = optionIndex === currentQuestion.correctAnswerIndex;
      setUserAnswers(prev => ({ ...prev, [currentQuestionIndex]: optionIndex }));
      setSelectedAnswer({ index: optionIndex, isCorrect });
      if (isCorrect) { setScore(s => s + 20); }
      setShowFeedback(true);
  };
  \<close>
  Reading a member of \<^verbatim>\<open>undefined\<close> (no question at the index) or of \<^verbatim>\<open>null\<close> throws.
\<close>

definition handleAnswerSelect :: "int \<Rightarrow> kidGenius \<Rightarrow> Exn + kidGenius" where
  "handleAnswerSelect optionIndex st =
     (if showFeedback st then Inr st
      else if currentQuestionIndex st \<ge> length (questions st) then Inl TypeError
      else case getProp (questions st ! currentQuestionIndex st) ''correctAnswerIndex'' of
             Inl e \<Rightarrow> Inl e
           | Inr correctAnswerIndex \<Rightarrow>
               (let isCorrect = (correctAnswerIndex = Some (JNum optionIndex))
                in Inr (st\<lparr>userAnswers := (userAnswers st)(currentQuestionIndex st \<mapsto> optionIndex),
                            selectedAnswer := Some (optionIndex, isCorrect),
                            score := (if isCorrect then score st + 20 else score st),
                            showFeedback := True\<rparr>)))"

text \<open>
  \<^verbatim>\<open>handleNext\<close>: advance, or finish the quiz. On finishing it also starts the tutor feedback
  for \<^verbatim>\<open>(score, questions, userAnswers)\<close>, modelled further below.
\<close>

definition handleNext :: "kidGenius \<Rightarrow> kidGenius" where
  "handleNext st =
     (let st1 = st\<lparr>selectedAnswer := None, showFeedback := False\<rparr>
      in if int (currentQuestionIndex st) < int (length (questions st)) - 1
         then st1\<lparr>currentQuestionIndex := currentQuestionIndex st + 1\<rparr>
         else st1\<lparr>stage := Result\<rparr>)"

text \<open>A run of the quiz: for each chosen option, select it and press next.\<close>

fun answerAll :: "int list \<Rightarrow> kidGenius \<Rightarrow> Exn + kidGenius" where
  "answerAll [] st = Inr st"
| "answerAll (optionIndex # rest) st =
     (case handleAnswerSelect optionIndex st of
        Inl e \<Rightarrow> Inl e
      | Inr st1 \<Rightarrow> answerAll rest (handleNext st1))"

text \<open>The state the component starts in (the initial values of its \<^verbatim>\<open>useState\<close> hooks).\<close>

definition initialKidGenius :: "settings \<Rightarrow> kidGenius" where
  "initialKidGenius se =
     \<lparr>stage = Setup, settings = se, questions = [], userAnswers = Map.empty,
      currentQuestionIndex = 0, score = 0, selectedAnswer = None, showFeedback = False,
      isLoading = False, error = None, isFromPath = False, aiTutorFeedback = None\<rparr>"

section \<open>The unlock policy of KidGeniusApp\<close>

text \<open>
  The Vietnamese names the code uses as keys, as the UTF-8 bytes they have in the source file:
  the three difficulties (easy \<open>De\<close>, medium \<open>Trung_binh\<close>, hard \<open>Kho\<close>), and the default
  grade \<open>Lop_6\<close> and subject \<open>Toan\<close>. The accented letters are written as byte values.
\<close>

definition De :: string where
  "De = [CHR ''D'', CHR 0xE1, CHR 0xBB, CHR 0x85]"

definition Trung_binh :: string where
  "Trung_binh = ''Trung b'' @ [CHR 0xC3, CHR 0xAC] @ ''nh''"

definition Kho :: string where
  "Kho = ''Kh'' @ [CHR 0xC3, CHR 0xB3]"

definition Lop_6 :: string where
  "Lop_6 = ''L'' @ [CHR 0xE1, CHR 0xBB, CHR 0x9B] @ ''p 6''"

definition Toan :: string where
  "Toan = ''To'' @ [CHR 0xC3, CHR 0xA1] @ ''n''"

text \<open>
  \<^verbatim>\<open>const difficultyOrder = { De: 1, Trung_binh: 2, Kho: 3 };\<close>
  \<open>None\<close> stands for a value that is not a number: \<^verbatim>\<open>undefined\<close> for a key that is not
  in the object, or the function or object inherited under one of the names of
  \<^verbatim>\<open>Object.prototype\<close>. Every comparison with it is false.
\<close>

definition difficultyOrder :: "string \<Rightarrow> nat option" where
  "difficultyOrder key =
     (if key = De then Some 1 else if key = Trung_binh then Some 2
      else if key = Kho then Some 3 else None)"

definition difficultyKeys :: "string list" where
  "difficultyKeys = [De, Trung_binh, Kho]"

text \<open>
  \<^verbatim>\<open>unlockedLevels\<close>: grade, then subject, to the highest unlocked difficulty. The maps hold
  the own properties of the objects, as \<^verbatim>\<open>JSON.stringify\<close> writes them and
  \<^verbatim>\<open>JSON.parse\<close> creates them; the model covers values of this shape (an object of objects
  of strings).
\<close>

type_synonym UnlockProgress = "string \<rightharpoonup> (string \<rightharpoonup> string)"

text \<open>
  The objects are plain objects, so \<^verbatim>\<open>obj[key]\<close> goes through the prototype chain: when the
  object has no own property \<open>key\<close>, a name of \<^verbatim>\<open>Object.prototype\<close> gives the inherited
  function (or, for \<^verbatim>\<open>__proto__\<close>, the prototype object) and any other name gives
  \<^verbatim>\<open>undefined\<close>. \<^verbatim>\<open>Object.prototype\<close> is taken to have its standard properties only.
\<close>

definition objectPrototypeNames :: "string list" where
  "objectPrototypeNames =
     [''constructor'', ''__proto__'', ''hasOwnProperty'', ''isPrototypeOf'',
      ''propertyIsEnumerable'', ''toLocaleString'', ''toString'', ''valueOf'',
      ''__defineGetter__'', ''__defineSetter__'', ''__lookupGetter__'', ''__lookupSetter__'']"

datatype 'a PropRead = Own 'a | Inherited | Undefined

definition readProp :: "(string \<rightharpoonup> 'a) \<Rightarrow> string \<Rightarrow> 'a PropRead" where
  "readProp obj key =
     (case obj key of
        Some v \<Rightarrow> Own v
      | None \<Rightarrow> if key \<in> set objectPrototypeNames then Inherited else Undefined)"

text \<open>
  \<^verbatim>\<open>subjects[currentSubject] || De\<close> on the object of one grade: a level name, or the
  inherited function or object (which is truthy, so the default is not taken).
\<close>

datatype Level = LevelName string | BuiltinValue

definition readLevel :: "(string \<rightharpoonup> string) \<Rightarrow> string \<Rightarrow> Level" where
  "readLevel subjects s =
     (case readProp subjects s of
        Own l \<Rightarrow> LevelName (if l = [] then De else l)
      | Inherited \<Rightarrow> BuiltinValue
      | Undefined \<Rightarrow> LevelName De)"

text \<open>
  \<^verbatim>\<open>difficultyOrder[level]\<close>: an inherited function or object is turned into a string that
  is no key of \<^verbatim>\<open>difficultyOrder\<close> and no name of \<^verbatim>\<open>Object.prototype\<close>.
\<close>

definition levelIndex :: "Level \<Rightarrow> nat option" where
  "levelIndex lv = (case lv of LevelName l \<Rightarrow> difficultyOrder l | BuiltinValue \<Rightarrow> None)"

text \<open>
  When the grade itself is not an own property but a name of \<^verbatim>\<open>Object.prototype\<close>,
  \<^verbatim>\<open>newProgress[currentGrade]\<close> is a built-in object, and the code goes on to read and write
  properties of that built-in object. The model does not follow the code there and says so.
\<close>

datatype Outside = BuiltinObject

text \<open>
  The function given to \<^verbatim>\<open>setUnlockedLevels\<close>:
  \<^verbatim>\<open>
  const newProgress = JSON.parse(JSON.stringify(prev));
  if (!newProgress[currentGrade]) { newProgress[currentGrade] = {}; }
  const currentUnlockedLevel = newProgress[currentGrade][currentSubject] || De;
  const currentUnlockedLevelIndex = difficultyOrder[currentUnlockedLevel];
  if (nextDifficulty && difficultyOrder[nextDifficulty] > currentUnlockedLevelIndex) {
      newProgress[currentGrade][currentSubject] = nextDifficulty;
      localStorage.setItem(`kidGeniusProgress_${currentUser.uid}`, JSON.stringify(newProgress));
  }
  return newProgress;
  \<close>
  It returns the new state and, when it writes, the value written to the local store. A write
  happens only after the subject was read as a level name, so it sets an own property.
\<close>

definition unlockUpdater ::
  "string \<Rightarrow> string \<Rightarrow> string option \<Rightarrow> UnlockProgress
     \<Rightarrow> Outside + UnlockProgress \<times> UnlockProgress option" where
  "unlockUpdater currentGrade currentSubject nextDifficulty prev =
     (case readProp prev currentGrade of
        Inherited \<Rightarrow> Inl BuiltinObject
      | gradeRead \<Rightarrow>
          (let newProgress = (case gradeRead of
                                Own m \<Rightarrow> prev
                              | _ \<Rightarrow> prev(currentGrade \<mapsto> Map.empty));
               subjects = (case gradeRead of Own m \<Rightarrow> m | _ \<Rightarrow> Map.empty);
               currentUnlockedLevel = readLevel subjects currentSubject;
               currentUnlockedLevelIndex = levelIndex currentUnlockedLevel
           in case nextDifficulty of
                None \<Rightarrow> Inr (newProgress, None)
              | Some nd \<Rightarrow>
                  (case (difficultyOrder nd, currentUnlockedLevelIndex) of
                     (Some nextIndex, Some currentIndex) \<Rightarrow>
                       if nd \<noteq> [] \<and> nextIndex > currentIndex
                       then (let written = newProgress(currentGrade \<mapsto> subjects(currentSubject \<mapsto> nd))
                             in Inr (written, Some written))
                       else Inr (newProgress, None)
                   | _ \<Rightarrow> Inr (newProgress, None))))"

text \<open>
  The effect that applies the policy:
  \<^verbatim>\<open>
  if (stage === 'result' && score >= 70) {
      const currentLevelIndex = difficultyOrder[currentDifficulty];
      if (currentLevelIndex < 3) {
          const nextDifficulty = Object.keys(difficultyOrder).find(key => difficultyOrder[key] === currentLevelIndex + 1);
          setUnlockedLevels(prev => ...);
      }
  }
  \<close>
\<close>

definition unlockEffect ::
  "Stage \<Rightarrow> int \<Rightarrow> settings \<Rightarrow> UnlockProgress
     \<Rightarrow> Outside + UnlockProgress \<times> UnlockProgress option" where
  "unlockEffect stg sc se prev =
     (if stg = Result \<and> sc \<ge> 70 then
        (case difficultyOrder (difficulty se) of
           None \<Rightarrow> Inr (prev, None)
         | Some currentLevelIndex \<Rightarrow>
             if currentLevelIndex < 3
             then unlockUpdater (grade se) (subject se)
                    (find (\<lambda>key. difficultyOrder key = Some (currentLevelIndex + 1)) difficultyKeys)
                    prev
             else Inr (prev, None))
      else Inr (prev, None))"

definition unlockPolicy ::
  "Stage \<Rightarrow> int \<Rightarrow> settings \<Rightarrow> UnlockProgress \<Rightarrow> Outside + UnlockProgress" where
  "unlockPolicy stg sc se prev = map_sum id fst (unlockEffect stg sc se prev)"

text \<open>
  How the setup view reads the mapping:
  \<^verbatim>\<open>
  const highestUnlockedForCurrent = unlockedLevels[settings.grade]?.[settings.subject] || De;
  const highestUnlockedIndex = difficultyOrder[highestUnlockedForCurrent];
  \<close>
  When the grade is not an own property but a name of \<^verbatim>\<open>Object.prototype\<close>, the subject is
  read from a built-in object, which the model does not follow.
\<close>

definition highestUnlockedFor :: "UnlockProgress \<Rightarrow> string \<Rightarrow> string \<Rightarrow> Outside + Level" where
  "highestUnlockedFor unlockedLevels g s =
     (case readProp unlockedLevels g of
        Own subjects \<Rightarrow> Inr (readLevel subjects s)
      | Inherited \<Rightarrow> Inl BuiltinObject
      | Undefined \<Rightarrow> Inr (LevelName De))"


text \<open>The level stored for a grade and subject, if any: the own properties of the mapping.\<close>

definition storedLevel :: "UnlockProgress \<Rightarrow> string \<Rightarrow> string \<Rightarrow> string option" where
  "storedLevel unlockedLevels g s =
     (case unlockedLevels g of None \<Rightarrow> None | Some subjects \<Rightarrow> subjects s)"

section \<open>Tutor feedback of KidGeniusApp\<close>

text \<open>
  \<^verbatim>\<open>v[i]\<close> throws a TypeError exactly when \<open>v\<close> is \<^verbatim>\<open>undefined\<close> or \<^verbatim>\<open>null\<close>.
\<close>

fun indexable :: "json option \<Rightarrow> bool" where
  "indexable None = False"
| "indexable (Some JNull) = False"
| "indexable (Some v) = True"

text \<open>
  The callback of \<^verbatim>\<open>finalQuestions.map\<close> in \<^verbatim>\<open>generateAITutorFeedback\<close>, for the question
  \<open>q\<close> and \<^verbatim>\<open>userAnswerIndex = finalUserAnswers[index]\<close>:
  \<^verbatim>\<open>
  const isCorrect = userAnswerIndex === q.correctAnswerIndex;
  const studentChoice = (userAnswerIndex !== undefined && userAnswerIndex !== null && q.options[userAnswerIndex])
      ? `"${q.options[userAnswerIndex]}"` : ...;
  if (!isCorrect) { return `... ${q.question} ... ${studentChoice} ... ${q.options[q.correctAnswerIndex]} ... ${q.explanation}`; }
  return null;
  \<close>
  The result is the entry for a wrong answer, \<open>None\<close> for \<^verbatim>\<open>null\<close>, or the exception thrown
  while reading \<open>q\<close>.
\<close>

definition wrongAnswerEntry :: "json \<Rightarrow> int option \<Rightarrow> Exn + WrongAnswer option" where
  "wrongAnswerEntry q userAnswerIndex =
     (case getProp q ''correctAnswerIndex'' of
        Inl e \<Rightarrow> Inl e
      | Inr correctAnswerIndex \<Rightarrow>
          (let isCorrect = (case userAnswerIndex of
                              None \<Rightarrow> correctAnswerIndex = None
                            | Some i \<Rightarrow> correctAnswerIndex = Some (JNum i))
           in case getProp q ''options'' of
                Inl e \<Rightarrow> Inl e
              | Inr opts \<Rightarrow>
                  if userAnswerIndex \<noteq> None \<and> \<not> indexable opts then Inl TypeError
                  else if \<not> isCorrect then
                    (if \<not> indexable opts then Inl TypeError
                     else Inr (Some (WrongAnswer q userAnswerIndex)))
                  else Inr None))"

text \<open>
  \<^verbatim>\<open>finalQuestions.map((q, index) => ...).filter(Boolean)\<close>, from the index \<open>index\<close> on: the
  entries of the wrong answers in order; the first exception ends the evaluation.
\<close>

fun wrongAnswersFrom :: "nat \<Rightarrow> json list \<Rightarrow> (nat \<rightharpoonup> int) \<Rightarrow> Exn + WrongAnswer list" where
  "wrongAnswersFrom index [] finalUserAnswers = Inr []"
| "wrongAnswersFrom index (q # qs) finalUserAnswers =
     (case wrongAnswerEntry q (finalUserAnswers index) of
        Inl e \<Rightarrow> Inl e
      | Inr entry \<Rightarrow>
          (case wrongAnswersFrom (Suc index) qs finalUserAnswers of
             Inl e \<Rightarrow> Inl e
           | Inr entries \<Rightarrow> Inr (case entry of None \<Rightarrow> entries | Some w \<Rightarrow> w # entries)))"

text \<open>
  The entry appended to the quiz history in the \<^verbatim>\<open>finally\<close> block; the date is left out.
\<close>

record historyEntry =
  h_score :: int
  h_difficulty :: string
  h_topic :: string
  h_questions :: "json list"
  h_userAnswers :: "nat \<rightharpoonup> int"
  h_aiTutorFeedback :: Feedback

text \<open>
  What one call of \<^verbatim>\<open>generateAITutorFeedback\<close> does: the feedback it sets, the requests it
  sends to the service, and the history entry it appends.
\<close>

record tutorRun =
  feedbackData :: Feedback
  requests :: "Request list"
  newHistoryEntry :: historyEntry

text \<open>
  The \<^verbatim>\<open>try\<close> block of \<^verbatim>\<open>generateAITutorFeedback\<close>; every exception ends in the
  \<^verbatim>\<open>catch\<close> block, which sets the fixed error feedback.
  \<^verbatim>\<open>
  if (wrongAnswersInfo.length === 0 && finalScore >= 100) {
      feedbackData = { title: ..., content: ... };
  } else {
      if (!apiKey) throw new Error("API Key is not set.");
      const response = await ai.models.generateContent({...});
      feedbackData = JSON.parse(response.text.trim());
  }
  \<close>
\<close>

definition tutorFeedback ::
  "string option \<Rightarrow> (Request \<Rightarrow> Outcome) \<Rightarrow> int \<Rightarrow> json list \<Rightarrow> (nat \<rightharpoonup> int)
     \<Rightarrow> Feedback \<times> Request list" where
  "tutorFeedback apiKey ai finalScore finalQuestions finalUserAnswers =
     (case wrongAnswersFrom 0 finalQuestions finalUserAnswers of
        Inl e \<Rightarrow> (FeedbackError, [])
      | Inr wrongAnswersInfo \<Rightarrow>
          if length wrongAnswersInfo = 0 \<and> finalScore \<ge> 100 then (Celebration, [])
          else if apiKey = None \<or> apiKey = Some [] then (FeedbackError, [])
          else (case ai (TutorRequest finalScore wrongAnswersInfo) of
                  Thrown msg \<Rightarrow> (FeedbackError, [TutorRequest finalScore wrongAnswersInfo])
                | Response None \<Rightarrow> (FeedbackError, [TutorRequest finalScore wrongAnswersInfo])
                | Response (Some t) \<Rightarrow>
                    (case JSON_parse t of
                       Inl e \<Rightarrow> (FeedbackError, [TutorRequest finalScore wrongAnswersInfo])
                     | Inr j \<Rightarrow> (FromService j, [TutorRequest finalScore wrongAnswersInfo]))))"

definition generateAITutorFeedback ::
  "string option \<Rightarrow> (Request \<Rightarrow> Outcome) \<Rightarrow> settings \<Rightarrow> int \<Rightarrow> json list \<Rightarrow> (nat \<rightharpoonup> int)
     \<Rightarrow> tutorRun" where
  "generateAITutorFeedback apiKey ai se finalScore finalQuestions finalUserAnswers =
     (let (fb, reqs) = tutorFeedback apiKey ai finalScore finalQuestions finalUserAnswers
      in \<lparr>feedbackData = fb, requests = reqs,
          newHistoryEntry =
            \<lparr>h_score = finalScore, h_difficulty = difficulty se,
             h_topic = (if topic se = [] then subject se else topic se),
             h_questions = finalQuestions, h_userAnswers = finalUserAnswers,
             h_aiTutorFeedback = fb\<rparr>\<rparr>)"

text \<open>
  \<^verbatim>\<open>runWithApiKey\<close> of the API context rejects without running the callback when no key is
  set; \<^verbatim>\<open>handleNext\<close> starts the tutor feedback through it, with the score, questions and
  answers of the finished quiz.
\<close>

definition runWithApiKey :: "string option \<Rightarrow> 'a \<Rightarrow> Exn + 'a" where
  "runWithApiKey apiKey callback =
     (if apiKey = None \<or> apiKey = Some [] then Inl ApiKeyRequired else Inr callback)"

definition feedbackOnFinish ::
  "string option \<Rightarrow> (Request \<Rightarrow> Outcome) \<Rightarrow> kidGenius \<Rightarrow> Exn + tutorRun" where
  "feedbackOnFinish apiKey ai st =
     runWithApiKey apiKey
       (generateAITutorFeedback apiKey ai (settings st) (score st) (questions st) (userAnswers st))"

section \<open>Reads of the local store\<close>

text \<open>
  \<^verbatim>\<open>localStorage\<close>: keys to stored texts; \<^verbatim>\<open>getItem\<close> of a missing key gives \<^verbatim>\<open>null\<close>
  (\<open>None\<close>). A stored text is falsy exactly when it is the empty string.
\<close>

type_synonym Storage = "string \<rightharpoonup> Text"

definition truthyItem :: "Text option \<Rightarrow> bool" where
  "truthyItem item = (item \<noteq> None \<and> item \<noteq> Some EmptyText)"

text \<open>The decimal name of an array index, as the key of the property.\<close>

definition digitChar :: "nat \<Rightarrow> char" where
  "digitChar d = ''0123456789'' ! d"

function decimalNat :: "nat \<Rightarrow> string" where
  "decimalNat n =
     (if n < 10 then [digitChar n] else decimalNat (n div 10) @ [digitChar (n mod 10)])"
  by pat_completeness auto
termination
  by (relation "measure id") auto

text \<open>
  A JavaScript string is a sequence of UTF-16 code units. \<open>codeUnits\<close> splits a text (UTF-8
  bytes) into its code units, each given as a text of its own: a character of one, two or three
  bytes is one code unit; a character of four bytes (above U+FFFF) is two code units, the high
  and the low surrogate, written in the three-byte form.
\<close>

definition surrogateText :: "nat \<Rightarrow> string" where
  "surrogateText u =
     [char_of (0xE0 + u div 4096), char_of (0x80 + (u div 64) mod 64), char_of (0x80 + u mod 64)]"

definition astral :: "char \<Rightarrow> char \<Rightarrow> char \<Rightarrow> char \<Rightarrow> nat" where
  "astral b c d e =
     (of_char b - 0xF0) * 262144 + (of_char c - 0x80) * 4096 + (of_char d - 0x80) * 64
       + (of_char e - 0x80) - 0x10000"

fun codeUnits :: "string \<Rightarrow> string list" where
  "codeUnits [] = []"
| "codeUnits (b # bs) =
     (if (of_char b :: nat) < 0x80 then [b] # codeUnits bs
      else if (of_char b :: nat) < 0xE0 then
        (case bs of c # r \<Rightarrow> [b, c] # codeUnits r | _ \<Rightarrow> [])
      else if (of_char b :: nat) < 0xF0 then
        (case bs of c # d # r \<Rightarrow> [b, c, d] # codeUnits r | _ \<Rightarrow> [])
      else
        (case bs of
           c # d # e # r \<Rightarrow>
             surrogateText (0xD800 + astral b c d e div 1024)
               # surrogateText (0xDC00 + astral b c d e mod 1024) # codeUnits r
         | _ \<Rightarrow> []))"

text \<open>
  The own enumerable properties an object spread \<^verbatim>\<open>{ ...v }\<close> copies: the members of an
  object, the elements of an array and the code units of a string under their indices, nothing
  for a number, a boolean or \<^verbatim>\<open>null\<close>.
\<close>

fun spreadProps :: "json \<Rightarrow> (string \<times> json) list" where
  "spreadProps (JObj kvs) = kvs"
| "spreadProps (JArr xs) = zip (map decimalNat [0..<length xs]) xs"
| "spreadProps (JStr s) = zip (map decimalNat [0..<length (codeUnits s)]) (map JStr (codeUnits s))"
| "spreadProps v = []"

text \<open>
  The initial settings of \<open>KidGeniusApp\<close>:
  \<^verbatim>\<open>
  try {
      const saved = localStorage.getItem(`kidGeniusSettings_${currentUser.uid}`);
      const defaults = { grade: Lop_6, subject: Toan, difficulty: De, topic: '' };
      if (saved) { return { ...defaults, ...JSON.parse(saved) }; }
      return defaults;
  } catch (e) { return { grade: Lop_6, subject: Toan, difficulty: De, topic: '' }; }
  \<close>
  The settings object is a map from member names to values; in an object literal a later
  member replaces an earlier one of the same name.
\<close>

definition defaultSettings :: "string \<rightharpoonup> json" where
  "defaultSettings =
     [''grade'' \<mapsto> JStr Lop_6, ''subject'' \<mapsto> JStr Toan, ''difficulty'' \<mapsto> JStr De,
      ''topic'' \<mapsto> JStr []]"

definition objectOf :: "(string \<times> json) list \<Rightarrow> (string \<rightharpoonup> json)" where
  "objectOf kvs = map_of (rev kvs)"

definition initialSettings :: "Storage \<Rightarrow> string \<Rightarrow> (string \<rightharpoonup> json)" where
  "initialSettings store uid =
     (let saved = store (''kidGeniusSettings_'' @ uid)
      in if truthyItem saved then
           (case JSON_parse (the saved) of
              Inr parsed \<Rightarrow> defaultSettings ++ objectOf (spreadProps parsed)
            | Inl e \<Rightarrow> defaultSettings)
         else defaultSettings)"

text \<open>
  The effect that loads the unlock progress of \<open>KidGeniusApp\<close>:
  \<^verbatim>\<open>
  try {
      const savedProgress = localStorage.getItem(`kidGeniusProgress_${currentUser.uid}`);
      if (savedProgress) { setUnlockedLevels(JSON.parse(savedProgress)); }
  } catch (e) { localStorage.removeItem(`kidGeniusProgress_${currentUser.uid}`); }
  \<close>
  It returns the value given to \<^verbatim>\<open>setUnlockedLevels\<close> (\<open>None\<close> when the state keeps its
  initial value, the empty object) and the store.
\<close>

definition loadProgress :: "Storage \<Rightarrow> string \<Rightarrow> json option \<times> Storage" where
  "loadProgress store uid =
     (let savedProgress = store (''kidGeniusProgress_'' @ uid)
      in if truthyItem savedProgress then
           (case JSON_parse (the savedProgress) of
              Inr parsed \<Rightarrow> (Some parsed, store)
            | Inl e \<Rightarrow> (None, store((''kidGeniusProgress_'' @ uid) := None)))
         else (None, store))"

text \<open>
  The mount effect of \<open>QuizMasterApp\<close> reads three keys. The part of the component state
  it sets holds parsed values as they come; \<open>None\<close> stands for \<^verbatim>\<open>undefined\<close>.
\<close>

record quizMaster =
  qm_stage :: json
  qm_topic :: "json option"
  qm_questions :: "json option"
  qm_answers :: json
  qm_cards :: json
  qm_pdfName :: json
  qm_learningKit :: json
  qm_assignmentId :: "json option"
  qm_assignments :: json
  qm_submissions :: json
  qm_hasSavedCards :: bool

definition initialQuizMaster :: quizMaster where
  "initialQuizMaster =
     \<lparr>qm_stage = JStr ''builder'', qm_topic = Some (JStr []), qm_questions = Some (JArr []),
      qm_answers = JObj [], qm_cards = JArr [], qm_pdfName = JStr [], qm_learningKit = JNull,
      qm_assignmentId = Some (JStr []), qm_assignments = JArr [], qm_submissions = JObj [],
      qm_hasSavedCards = False\<rparr>"

text \<open>\<^verbatim>\<open>JSON.parse(localStorage.getItem(key) || fallback)\<close>, outside any \<^verbatim>\<open>try\<close>.\<close>

definition parseItemOr :: "json \<Rightarrow> Text option \<Rightarrow> Exn + json" where
  "parseItemOr fallback item = (if truthyItem item then JSON_parse (the item) else Inr fallback)"

text \<open>Truthiness of a value, for \<^verbatim>\<open>v || d\<close>.\<close>

fun truthy :: "json option \<Rightarrow> bool" where
  "truthy None = False"
| "truthy (Some JNull) = False"
| "truthy (Some (JBool b)) = b"
| "truthy (Some (JNum n)) = (n \<noteq> 0)"
| "truthy (Some (JStr s)) = (s \<noteq> [])"
| "truthy (Some v) = True"

definition orElse :: "json option \<Rightarrow> json \<Rightarrow> json" where
  "orElse v d = (if truthy v then the v else d)"

text \<open>
  \<^verbatim>\<open>allAssignments.find(a => a.id === assignmentIdFromUrl)\<close> over the elements of an array:
  reading \<^verbatim>\<open>a.id\<close> of a \<^verbatim>\<open>null\<close> element throws.
\<close>

fun findAssignment :: "string \<Rightarrow> json list \<Rightarrow> Exn + json option" where
  "findAssignment ident [] = Inr None"
| "findAssignment ident (a # rest) =
     (case getProp a ''id'' of
        Inl e \<Rightarrow> Inl e
      | Inr v \<Rightarrow> if v = Some (JStr ident) then Inr (Some a) else findAssignment ident rest)"

datatype MountAlert = AssignmentNotFound

text \<open>
  The mount effect, with the \<^verbatim>\<open>assignment\<close> parameter of the URL and the user's answer to
  \<^verbatim>\<open>window.confirm\<close> as inputs. It returns the state, the store and the alerts shown, or
  the exception that leaves the effect.
  \<^verbatim>\<open>
  if (assignmentIdFromUrl) {
      const allAssignments = JSON.parse(localStorage.getItem('eduquiz:assignments') || '[]');
      const assignment = allAssignments.find(a => a.id === assignmentIdFromUrl);
      if (assignment) { setTopic(assignment.topic); setQuestions(assignment.questions);
                        setAssignmentId(assignment.id); setStage('studentNameEntry'); }
      else { alert(...); }
      return;
  }
  const savedAssignments = JSON.parse(localStorage.getItem("eduquiz:assignments") || '[]');
  const savedSubmissions = JSON.parse(localStorage.getItem("eduquiz:submissions") || '{}');
  setAssignments(savedAssignments); setSubmissions(savedSubmissions);
  const savedSession = localStorage.getItem("eduquiz:session");
  if (savedSession) {
    try {
      if (window.confirm(...)) {
        const sessionData = JSON.parse(savedSession);
        setStage(sessionData.stage || 'builder'); ... ; return;
      } else { localStorage.removeItem("eduquiz:session"); }
    } catch (e) { localStorage.removeItem("eduquiz:session"); }
  }
  const savedCardsData = localStorage.getItem("eduquiz:saved_cards");
  setHasSavedCards(!!savedCardsData);
  \<close>
\<close>

fun propOf :: "json \<Rightarrow> string \<Rightarrow> json option" where
  "propOf (JObj kvs) key = map_of kvs key"
| "propOf v key = None"

definition restoreSession :: "json \<Rightarrow> quizMaster \<Rightarrow> Exn + quizMaster" where
  "restoreSession sessionData st =
     (if sessionData = JNull then Inl TypeError
      else Inr (st\<lparr>qm_stage := orElse (propOf sessionData ''stage'') (JStr ''builder''),
                   qm_topic := Some (orElse (propOf sessionData ''topic'') (JStr [])),
                   qm_questions := Some (orElse (propOf sessionData ''questions'') (JArr [])),
                   qm_answers := orElse (propOf sessionData ''answers'') (JObj []),
                   qm_cards := orElse (propOf sessionData ''cards'') (JArr []),
                   qm_pdfName := orElse (propOf sessionData ''pdfName'') (JStr []),
                   qm_learningKit := orElse (propOf sessionData ''learningKit'') JNull\<rparr>))"

text \<open>
  The end of the effect, reached when no session is restored:
  \<^verbatim>\<open>setHasSavedCards(!!localStorage.getItem("eduquiz:saved_cards"))\<close>.
\<close>

definition noteSavedCards :: "Storage \<Rightarrow> quizMaster \<Rightarrow> quizMaster \<times> Storage" where
  "noteSavedCards store st =
     (st\<lparr>qm_hasSavedCards := truthyItem (store ''eduquiz:saved_cards'')\<rparr>, store)"

text \<open>The part about the saved session; its \<^verbatim>\<open>try\<close> block catches every exception.\<close>

definition loadSession :: "bool \<Rightarrow> Storage \<Rightarrow> quizMaster \<Rightarrow> quizMaster \<times> Storage" where
  "loadSession confirmed store st =
     (let savedSession = store ''eduquiz:session''
      in if truthyItem savedSession then
           (if confirmed then
              (case JSON_parse (the savedSession) of
                 Inl e \<Rightarrow> noteSavedCards (store(''eduquiz:session'' := None)) st
               | Inr sessionData \<Rightarrow>
                   (case restoreSession sessionData st of
                      Inl e \<Rightarrow> noteSavedCards (store(''eduquiz:session'' := None)) st
                    | Inr st1 \<Rightarrow> (st1, store)))
            else noteSavedCards (store(''eduquiz:session'' := None)) st)
         else noteSavedCards store st)"

definition openAssignment ::
  "string \<Rightarrow> Storage \<Rightarrow> quizMaster \<Rightarrow> Exn + quizMaster \<times> Storage \<times> MountAlert list" where
  "openAssignment assignmentIdFromUrl store st =
     (case parseItemOr (JArr []) (store ''eduquiz:assignments'') of
        Inl e \<Rightarrow> Inl e
      | Inr parsed \<Rightarrow>
          (case parsed of
             JArr allAssignments \<Rightarrow>
               (case findAssignment assignmentIdFromUrl allAssignments of
                  Inl e \<Rightarrow> Inl e
                | Inr None \<Rightarrow> Inr (st, store, [AssignmentNotFound])
                | Inr (Some assignment) \<Rightarrow>
                    Inr (st\<lparr>qm_topic := propOf assignment ''topic'',
                            qm_questions := propOf assignment ''questions'',
                            qm_assignmentId := propOf assignment ''id'',
                            qm_stage := JStr ''studentNameEntry''\<rparr>, store, []))
           | _ \<Rightarrow> Inl TypeError))"

definition mountEffect ::
  "string option \<Rightarrow> bool \<Rightarrow> Storage \<Rightarrow> quizMaster \<Rightarrow> Exn + quizMaster \<times> Storage \<times> MountAlert list" where
  "mountEffect assignmentIdFromUrl confirmed store st =
     (if assignmentIdFromUrl \<noteq> None \<and> assignmentIdFromUrl \<noteq> Some [] then
        openAssignment (the assignmentIdFromUrl) store st
      else
        (case parseItemOr (JArr []) (store ''eduquiz:assignments'') of
           Inl e \<Rightarrow> Inl e
         | Inr savedAssignments \<Rightarrow>
             (case parseItemOr (JObj []) (store ''eduquiz:submissions'') of
                Inl e \<Rightarrow> Inl e
              | Inr savedSubmissions \<Rightarrow>
                  (let (st1, store1) =
                         loadSession confirmed store
                           (st\<lparr>qm_assignments := savedAssignments,
                               qm_submissions := savedSubmissions\<rparr>)
                   in Inr (st1, store1, [])))))"

section \<open>Exporting and sharing a card set\<close>

text \<open>
  Texts are the UTF-8 bytes of well-formed strings. \<^verbatim>\<open>JSON.stringify\<close> quotes a string by
  escaping the double quote, the backslash and the control characters below U+0020 (the five
  short escapes, \<^verbatim>\<open>\u00XX\<close> in lower-case hexadecimal for the others) and copying every
  other character; all escaped characters are single bytes, so the quoting acts on bytes.
\<close>

definition hexDigit :: "nat \<Rightarrow> char" where
  "hexDigit d = ''0123456789abcdef'' ! d"

definition quoteChar :: "char \<Rightarrow> string" where
  "quoteChar c =
     (if c = CHR 0x08 then [CHR 0x5C, CHR ''b'']
      else if c = CHR 0x09 then [CHR 0x5C, CHR ''t'']
      else if c = CHR 0x0A then [CHR 0x5C, CHR ''n'']
      else if c = CHR 0x0C then [CHR 0x5C, CHR ''f'']
      else if c = CHR 0x0D then [CHR 0x5C, CHR ''r'']
      else if c = CHR 0x22 then [CHR 0x5C, CHR 0x22]
      else if c = CHR 0x5C then [CHR 0x5C, CHR 0x5C]
      else if (of_char c :: nat) < 0x20
        then [CHR 0x5C, CHR ''u'', CHR ''0'', CHR ''0'',
              hexDigit (of_char c div 16), hexDigit (of_char c mod 16)]
      else [c])"

definition quoteJSON :: "string \<Rightarrow> string" where
  "quoteJSON s = CHR 0x22 # concat (map quoteChar s) @ [CHR 0x22]"

definition statusText :: "CardStatus \<Rightarrow> string" where
  "statusText st = (case st of New \<Rightarrow> ''new'' | Mastered \<Rightarrow> ''mastered'' | NeedsReview \<Rightarrow> ''needs review'')"

text \<open>
  \<^verbatim>\<open>exportJSON\<close> downloads \<^verbatim>\<open>JSON.stringify(cards, null, 2)\<close>: an empty array is
  \<^verbatim>\<open>[]\<close>; otherwise the elements are written on lines indented by two spaces and separated by
  a comma and a line break, each object with its members \<^verbatim>\<open>front\<close>, \<^verbatim>\<open>back\<close>,
  \<^verbatim>\<open>status\<close> (the order of the card type) on lines indented by four spaces.
\<close>

definition newline :: string where
  "newline = [CHR 0x0A]"

definition cardJSON :: "card \<Rightarrow> string" where
  "cardJSON c =
     ''{'' @ newline @
     ''    '' @ quoteJSON ''front'' @ '': '' @ quoteJSON (front c) @ '','' @ newline @
     ''    '' @ quoteJSON ''back'' @ '': '' @ quoteJSON (back c) @ '','' @ newline @
     ''    '' @ quoteJSON ''status'' @ '': '' @ quoteJSON (statusText (status c)) @ newline @
     ''  }''"

fun cardItems :: "card list \<Rightarrow> string" where
  "cardItems [] = []"
| "cardItems [c] = cardJSON c"
| "cardItems (c # rest) = cardJSON c @ '','' @ newline @ ''  '' @ cardItems rest"

definition exportJSON :: "card list \<Rightarrow> string" where
  "exportJSON cards =
     (if cards = [] then ''[]''
      else ''['' @ newline @ ''  '' @ cardItems cards @ newline @ '']'')"

text \<open>
  The share button encodes
  \<^verbatim>\<open>btoa(JSON.stringify(cards.map(({ front, back }) => ({ front, back }))))\<close>:
  the compact JSON text of the pairs, then \<^verbatim>\<open>btoa\<close>.
\<close>

definition pairJSON :: "card \<Rightarrow> string" where
  "pairJSON c =
     ''{'' @ quoteJSON ''front'' @ '':'' @ quoteJSON (front c) @ '','' @
     quoteJSON ''back'' @ '':'' @ quoteJSON (back c) @ ''}''"

fun pairItems :: "card list \<Rightarrow> string" where
  "pairItems [] = []"
| "pairItems [c] = pairJSON c"
| "pairItems (c # rest) = pairJSON c @ '','' @ pairItems rest"

definition stringifyPairs :: "card list \<Rightarrow> string" where
  "stringifyPairs cards = ''['' @ pairItems cards @ '']''"

text \<open>
  The code points of a text, from its UTF-8 bytes (one, two, three or four bytes by the leading
  byte). \<^verbatim>\<open>btoa\<close> looks at UTF-16 code units; a code unit is above 255 exactly when its code
  point is, and below that the two agree.
\<close>

fun codePoints :: "nat list \<Rightarrow> nat list" where
  "codePoints [] = []"
| "codePoints (b # bs) =
     (if b < 0x80 then b # codePoints bs
      else if b < 0xE0 then
        (case bs of
           c # r \<Rightarrow> ((b - 0xC0) * 64 + (c - 0x80)) # codePoints r
         | _ \<Rightarrow> [])
      else if b < 0xF0 then
        (case bs of
           c # d # r \<Rightarrow> ((b - 0xE0) * 4096 + (c - 0x80) * 64 + (d - 0x80)) # codePoints r
         | _ \<Rightarrow> [])
      else
        (case bs of
           c # d # e # r \<Rightarrow>
             ((b - 0xF0) * 262144 + (c - 0x80) * 4096 + (d - 0x80) * 64 + (e - 0x80)) # codePoints r
         | _ \<Rightarrow> []))"

text \<open>Base64 of a sequence of bytes, with padding.\<close>

definition base64Char :: "nat \<Rightarrow> char" where
  "base64Char d = ''ABCDEFGHIJKLMNOPQRSTUVWXYZabcdefghijklmnopqrstuvwxyz0123456789+/'' ! d"

fun base64 :: "nat list \<Rightarrow> string" where
  "base64 [] = []"
| "base64 [a] = [base64Char (a div 4), base64Char ((a mod 4) * 16), CHR ''='', CHR ''='']"
| "base64 [a, b] =
     [base64Char (a div 4), base64Char ((a mod 4) * 16 + b div 16),
      base64Char ((b mod 16) * 4), CHR ''='']"
| "base64 (a # b # c # rest) =
     [base64Char (a div 4), base64Char ((a mod 4) * 16 + b div 16),
      base64Char ((b mod 16) * 4 + c div 64), base64Char (c mod 64)] @ base64 rest"

datatype DOMException = InvalidCharacterError

text \<open>
  \<^verbatim>\<open>btoa\<close> throws an \<^verbatim>\<open>InvalidCharacterError\<close> when the string has a character above
  U+00FF, and otherwise encodes the characters as bytes.
\<close>

definition btoa :: "string \<Rightarrow> DOMException + string" where
  "btoa s =
     (let units = codePoints (map of_char s)
      in if list_ex (\<lambda>u. u > 255) units then Inl InvalidCharacterError
         else Inr (base64 units))"

definition shareSet :: "card list \<Rightarrow> DOMException + string" where
  "shareSet cards = btoa (stringifyPairs cards)"

subsection \<open>Reading an exported file back\<close>

text \<open>
  The source has no operation that reads an export back. The reader below takes the text that
  \<open>exportJSON\<close> writes and returns the cards; it is what the round trip of an export is
  stated with. \<open>unquoteBody\<close> reads a quoted string after its opening quote, up to the closing
  quote, undoing the escapes of \<open>quoteChar\<close>, and returns the string and the rest of the text.
\<close>

definition unhex :: "char \<Rightarrow> nat" where
  "unhex h = (if (of_char h :: nat) < 58 then of_char h - 48 else of_char h - 87)"

definition unescape :: "char \<Rightarrow> char" where
  "unescape e =
     (if e = CHR ''b'' then CHR 0x08 else if e = CHR ''t'' then CHR 0x09
      else if e = CHR ''n'' then CHR 0x0A else if e = CHR ''f'' then CHR 0x0C
      else if e = CHR ''r'' then CHR 0x0D else e)"

fun unquoteBody :: "string \<Rightarrow> (string \<times> string) option" where
  "unquoteBody [] = None"
| "unquoteBody (c # cs) =
     (if c = CHR 0x22 then Some ([], cs)
      else if c = CHR 0x5C then
        (case cs of
           [] \<Rightarrow> None
         | e # r \<Rightarrow>
             if e = CHR ''u'' then
               (case r of
                  z1 # z2 # h1 # h2 # r' \<Rightarrow>
                    map_option (apfst ((#) (char_of (unhex h1 * 16 + unhex h2)))) (unquoteBody r')
                | _ \<Rightarrow> None)
             else map_option (apfst ((#) (unescape e))) (unquoteBody r))
      else map_option (apfst ((#) c)) (unquoteBody cs))"

text \<open>The members of one card, in the layout of \<open>cardJSON\<close>.\<close>

definition stripPrefix :: "string \<Rightarrow> string \<Rightarrow> string option" where
  "stripPrefix p s = (if take (length p) s = p then Some (drop (length p) s) else None)"

definition readQuoted :: "string \<Rightarrow> (string \<times> string) option" where
  "readQuoted s = (case s of [] \<Rightarrow> None | c # cs \<Rightarrow> if c = CHR 0x22 then unquoteBody cs else None)"

definition statusOfText :: "string \<Rightarrow> CardStatus option" where
  "statusOfText t =
     (if t = ''new'' then Some New else if t = ''mastered'' then Some Mastered
      else if t = ''needs review'' then Some NeedsReview else None)"

definition readMember :: "string \<Rightarrow> string \<Rightarrow> (string \<times> string) option" where
  "readMember key s =
     (case stripPrefix key s of None \<Rightarrow> None | Some s1 \<Rightarrow> readQuoted s1)"

definition frontKey :: string where
  "frontKey = ''{'' @ newline @ ''    '' @ quoteJSON ''front'' @ '': ''"

definition backKey :: string where
  "backKey = '','' @ newline @ ''    '' @ quoteJSON ''back'' @ '': ''"

definition statusKey :: string where
  "statusKey = '','' @ newline @ ''    '' @ quoteJSON ''status'' @ '': ''"

definition closeCard :: string where
  "closeCard = newline @ ''  }''"

definition readCard :: "string \<Rightarrow> (card \<times> string) option" where
  "readCard s =
     (case readMember frontKey s of
        None \<Rightarrow> None
      | Some (f, s1) \<Rightarrow>
          (case readMember backKey s1 of
             None \<Rightarrow> None
           | Some (b, s2) \<Rightarrow>
               (case readMember statusKey s2 of
                  None \<Rightarrow> None
                | Some (t, s3) \<Rightarrow>
                    (case (statusOfText t, stripPrefix closeCard s3) of
                       (Some st, Some s4) \<Rightarrow> Some (\<lparr>front = f, back = b, status = st\<rparr>, s4)
                     | _ \<Rightarrow> None))))"

text \<open>
  The cards of the array, one after the other; the first argument bounds the number of cards
  read.
\<close>

fun readItems :: "nat \<Rightarrow> string \<Rightarrow> card list option" where
  "readItems 0 s = None"
| "readItems (Suc k) s =
     (case readCard s of
        None \<Rightarrow> None
      | Some (c, rest) \<Rightarrow>
          if rest = newline @ '']'' then Some [c]
          else (case stripPrefix ('','' @ newline @ ''  '') rest of
                  None \<Rightarrow> None
                | Some s1 \<Rightarrow> map_option ((#) c) (readItems k s1)))"

text \<open>
  Modelled from the spec: the re-import of an exported card set, which the source does not
  contain. It reads the text of \<open>exportJSON\<close> back into the ordered sequence of cards; the
  length of the text bounds the number of cards.
\<close>

definition importJSON :: "string \<Rightarrow> card list option" where
  "importJSON s =
     (if s = ''[]'' then Some []
      else (case stripPrefix (''['' @ newline @ ''  '') s of
              None \<Rightarrow> None
            | Some s1 \<Rightarrow> readItems (length s) s1))"

section \<open>Properties\<close>

lemma length_mapIndexed: "length (mapIndexed f i xs) = length xs"
  by (induction xs arbitrary: i) simp_all

lemma nth_mapIndexed: "n < length xs \<Longrightarrow> mapIndexed f i xs ! n = f (i + n) (xs ! n)"
proof (induction xs arbitrary: i n)
  case Nil
  then show ?case by simp
next
  case (Cons x xs)
  then show ?case by (cases n) simp_all
qed

lemma shuffle_mset: "mset (fst (shuffle rnd n xs)) = mset xs"
proof -
  let ?zs = "zip (map rnd [n..<n + length xs]) xs"
  have "mset (map snd (sort_key fst ?zs)) = mset (map snd ?zs)"
    by (simp only: mset_map mset_sort)
  moreover have "map snd ?zs = xs"
    by (simp add: map_snd_zip)
  ultimately show ?thesis by (simp add: shuffle_def)
qed

lemma shuffle_counter: "snd (shuffle rnd n xs) = n + length xs"
  by (simp add: shuffle_def)

lemma shuffle_length: "length (fst (shuffle rnd n xs)) = length xs"
  using shuffle_mset [of rnd n xs] by (metis size_mset)

lemma shuffle_set: "set (fst (shuffle rnd n xs)) = set xs"
  using shuffle_mset [of rnd n xs] by (metis set_mset_mset)

lemma indexFrom_found:
  "x \<in> set xs \<Longrightarrow>
   int k \<le> indexFrom k xs x \<and> indexFrom k xs x < int (k + length xs) \<and>
   xs ! (nat (indexFrom k xs x) - k) = x"
proof (induction xs arbitrary: k)
  case Nil
  then show ?case by simp
next
  case (Cons y ys)
  show ?case
  proof (cases "y = x")
    case True
    then show ?thesis by simp
  next
    case False
    with Cons.prems have "x \<in> set ys" by simp
    from Cons.IH [OF this, of "Suc k"] False show ?thesis
      by (auto simp: nth_Cons' Suc_diff_le nat_le_iff)
  qed
qed

lemma indexOf_found:
  "x \<in> set xs \<Longrightarrow> 0 \<le> indexOf xs x \<and> indexOf xs x < int (length xs) \<and> xs ! nat (indexOf xs x) = x"
  using indexFrom_found [of x xs 0] by (simp add: indexOf_def)

lemma mset_take_subset: "mset (take k xs) \<subseteq># mset xs"
proof -
  have "mset xs = mset (take k xs) + mset (drop k xs)"
    by (metis append_take_drop_id mset_append)
  then show ?thesis by simp
qed


lemma makeQuestion_fields:
  "q_q (fst (makeQuestion rnd n cards i c)) = front c \<and>
   q_type (fst (makeQuestion rnd n cards i c)) = MC \<and>
   q_id (fst (makeQuestion rnd n cards i c)) = i + 1 \<and>
   q_a (fst (makeQuestion rnd n cards i c)) = indexOf (q_opts (fst (makeQuestion rnd n cards i c))) (back c)"
  by (simp add: makeQuestion_def Let_def case_prod_beta)

lemma makeQuestion_opts:
  "\<exists>ds. mset ds \<subseteq># mset (filter (\<lambda>d. front d \<noteq> front c) cards) \<and>
        length ds = min 3 (length (filter (\<lambda>d. front d \<noteq> front c) cards)) \<and>
        mset (q_opts (fst (makeQuestion rnd n cards i c))) = mset (back c # map back ds)"
proof -
  let ?others = "fst (shuffle rnd n (filter (\<lambda>d. front d \<noteq> front c) cards))"
  let ?n1 = "snd (shuffle rnd n (filter (\<lambda>d. front d \<noteq> front c) cards))"
  let ?ds = "take 3 ?others"
  have opts: "q_opts (fst (makeQuestion rnd n cards i c))
              = fst (shuffle rnd ?n1 (back c # map back ?ds))"
    by (simp add: makeQuestion_def Let_def case_prod_beta)
  have "mset ?ds \<subseteq># mset ?others"
    by (rule mset_take_subset)
  then have sub: "mset ?ds \<subseteq># mset (filter (\<lambda>d. front d \<noteq> front c) cards)"
    by (simp only: shuffle_mset)
  have len: "length ?ds = min 3 (length (filter (\<lambda>d. front d \<noteq> front c) cards))"
    by (simp add: shuffle_length min.commute)
  have "mset (q_opts (fst (makeQuestion rnd n cards i c))) = mset (back c # map back ?ds)"
    by (simp only: opts shuffle_mset)
  with sub len show ?thesis by blast
qed

lemma makeQuestion_answer:
  "0 \<le> q_a (fst (makeQuestion rnd n cards i c)) \<and>
   q_a (fst (makeQuestion rnd n cards i c)) < int (length (q_opts (fst (makeQuestion rnd n cards i c)))) \<and>
   q_opts (fst (makeQuestion rnd n cards i c)) ! nat (q_a (fst (makeQuestion rnd n cards i c))) = back c"
proof -
  obtain ds :: "card list"
    where "mset (q_opts (fst (makeQuestion rnd n cards i c))) = mset (back c # map back ds)"
    using makeQuestion_opts [of c cards rnd n i] by blast
  then have "back c \<in> set (q_opts (fst (makeQuestion rnd n cards i c)))"
    by (metis list.set_intros(1) mset_eq_setD)
  from indexOf_found [OF this] show ?thesis
    by (simp add: makeQuestion_fields)
qed

lemma pushQuestions_all2:
  "list_all2 (\<lambda>c qu. \<exists>m j. qu = fst (makeQuestion rnd m cards j c))
     cs (fst (pushQuestions rnd n cards i cs))"
proof (induction cs arbitrary: n i)
  case Nil
  then show ?case by simp
next
  case (Cons c cs)
  show ?case
    using Cons.IH [of "snd (makeQuestion rnd n cards i c)" "Suc i"]
    by (auto simp: case_prod_beta Let_def)
qed

lemma makeMCFromCards_all2:
  "list_all2 (\<lambda>c qu. \<exists>m j. qu = fst (makeQuestion rnd m cards j c))
     (take (min cnt (length cards)) (fst (shuffle rnd n cards)))
     (fst (makeMCFromCards rnd n cards cnt))"
  using pushQuestions_all2 [of rnd cards "take (min cnt (length cards)) (fst (shuffle rnd n cards))"
      "snd (shuffle rnd n cards)" 0]
  by (simp add: makeMCFromCards_def case_prod_beta Let_def shuffle_length)

lemma makeMCFromCards_length:
  "length (fst (makeMCFromCards rnd n cards cnt)) = min cnt (length cards)"
  using list_all2_lengthD [OF makeMCFromCards_all2 [of rnd cards cnt n]]
  by (simp add: shuffle_length)

lemma filter_mset_without:
  assumes "\<not> P c" and "c \<in> set xs"
  shows "mset (filter P xs) \<subseteq># mset xs - {#c#}"
proof -
  let ?A = "filter_mset P (mset xs)"
  let ?B = "filter_mset (\<lambda>x. \<not> P x) (mset xs)"
  have mem: "c \<in># ?B"
    using assms by simp
  have "mset xs = ?A + ?B"
    by (rule multiset_partition)
  then have "mset xs - {#c#} = ?A + ?B - {#c#}"
    by simp
  also have "\<dots> = ?A + (?B - {#c#})"
    using mem by (rule diff_union_single_conv)
  finally have "?A \<subseteq># mset xs - {#c#}"
    by simp
  then show ?thesis by simp
qed

lemma filter_other_mset:
  assumes "c \<in> set cards"
  shows "mset (filter (\<lambda>d. front d \<noteq> front c) cards) \<subseteq># mset cards - {#c#}"
  using assms by (intro filter_mset_without) simp_all

lemma useCardsToQuiz_length:
  "case useCardsToQuiz rnd n strat cnt cards of
     Inl alert \<Rightarrow> cardPoolOf strat cards = []
   | Inr (qs, m) \<Rightarrow> length qs = min cnt (length (cardPoolOf strat cards))"
proof (cases "cardPoolOf strat cards = []")
  case True
  then show ?thesis by (simp add: useCardsToQuiz_def)
next
  case False
  let ?pool = "cardPoolOf strat cards"
  have "useCardsToQuiz rnd n strat cnt cards
        = Inr (makeMCFromCards rnd n ?pool (min cnt (length ?pool)))"
    using False by (simp add: useCardsToQuiz_def Let_def)
  moreover have "length (fst (makeMCFromCards rnd n ?pool (min cnt (length ?pool))))
                 = min cnt (length ?pool)"
    by (simp add: makeMCFromCards_length)
  ultimately show ?thesis by (simp add: case_prod_beta)
qed

text \<open>
  C10. Setting a card's status with \<open>updateCardStatus\<close> keeps the length and the order of the
  list, the front and back text of every card, and the status of every card but the one at the
  given index, whose status becomes the new one.
\<close>

theorem updateCardStatus_frame:
  "length (updateCardStatus i s cards) = length cards \<and>
   map front (updateCardStatus i s cards) = map front cards \<and>
   map back (updateCardStatus i s cards) = map back cards \<and>
   (\<forall>j < length cards. j \<noteq> i \<longrightarrow> updateCardStatus i s cards ! j = cards ! j) \<and>
   (i < length cards \<longrightarrow> updateCardStatus i s cards ! i = (cards ! i)\<lparr>status := s\<rparr>)"
proof -
  let ?r = "updateCardStatus i s cards"
  have len: "length ?r = length cards"
    by (simp add: updateCardStatus_def length_mapIndexed)
  have nth: "?r ! j = (if j = i then (cards ! j)\<lparr>status := s\<rparr> else cards ! j)"
    if "j < length cards" for j
    using that by (simp add: updateCardStatus_def nth_mapIndexed)
  have "map front ?r = map front cards"
    by (rule nth_equalityI) (simp_all add: len nth)
  moreover have "map back ?r = map back cards"
    by (rule nth_equalityI) (simp_all add: len nth)
  ultimately show ?thesis
    using len nth by simp
qed

theorem updateCardStatus_frame_witness:
  "(1::nat) < length [\<lparr>front = ''a'', back = ''b'', status = New\<rparr>,
                      \<lparr>front = ''c'', back = ''d'', status = NeedsReview\<rparr>] \<and>
   updateCardStatus 1 Mastered
     [\<lparr>front = ''a'', back = ''b'', status = New\<rparr>,
      \<lparr>front = ''c'', back = ''d'', status = NeedsReview\<rparr>]
   = [\<lparr>front = ''a'', back = ''b'', status = New\<rparr>,
      \<lparr>front = ''c'', back = ''d'', status = Mastered\<rparr>]"
  using updateCardStatus_frame [of 1 Mastered
     "[\<lparr>front = ''a'', back = ''b'', status = New\<rparr>,
       \<lparr>front = ''c'', back = ''d'', status = NeedsReview\<rparr>]"]
  by (simp add: updateCardStatus_def)

text \<open>
  C6. \<open>makeMCFromCards\<close> (the spec's \<open>toQuiz\<close>) returns exactly \<open>min cnt (length cards)\<close>
  questions, so never more than the requested count or the number of cards. Every question is
  multiple-choice and made from a card \<open>c\<close> of the input: its text is the front of \<open>c\<close>, its
  answer \<open>q_a\<close> is an index into its options, the option at that index is the back of \<open>c\<close>,
  and the options are, in some order, the back of \<open>c\<close> and the backs of distractor cards \<open>ds\<close>
  drawn without replacement from the other cards (as multisets, \<open>ds\<close> lies within the cards
  with \<open>c\<close> taken out once); there are three distractors, or as many as there are cards with
  a different front when those are fewer than three. The function is total: no input makes it
  fail. \<open>useCardsToQuiz\<close> either reports that the filtered pool is empty or returns
  \<open>min cnt (length pool)\<close> questions.
\<close>

theorem makeMCFromCards_questions:
  "length (fst (makeMCFromCards rnd n cards cnt)) = min cnt (length cards) \<and>
   (\<forall>qu \<in> set (fst (makeMCFromCards rnd n cards cnt)).
      \<exists>c ds. c \<in> set cards \<and> q_type qu = MC \<and> q_q qu = front c \<and>
             0 \<le> q_a qu \<and> q_a qu < int (length (q_opts qu)) \<and>
             q_opts qu ! nat (q_a qu) = back c \<and>
             mset ds \<subseteq># mset cards - {#c#} \<and>
             length ds = min 3 (length (filter (\<lambda>d. front d \<noteq> front c) cards)) \<and>
             mset (q_opts qu) = mset (back c # map back ds)) \<and>
   (case useCardsToQuiz rnd n strat cnt cards of
      Inl alert \<Rightarrow> cardPoolOf strat cards = []
    | Inr (qs, m) \<Rightarrow> length qs = min cnt (length (cardPoolOf strat cards)))"
proof (intro conjI ballI)
  show "length (fst (makeMCFromCards rnd n cards cnt)) = min cnt (length cards)"
    by (rule makeMCFromCards_length)
next
  fix qu
  assume "qu \<in> set (fst (makeMCFromCards rnd n cards cnt))"
  then obtain k where k: "k < length (fst (makeMCFromCards rnd n cards cnt))"
      and qu: "qu = fst (makeMCFromCards rnd n cards cnt) ! k"
    by (auto simp: in_set_conv_nth)
  let ?pool = "take (min cnt (length cards)) (fst (shuffle rnd n cards))"
  have klen: "k < length ?pool"
    using k list_all2_lengthD [OF makeMCFromCards_all2 [of rnd cards cnt n]] by simp
  obtain m j where made: "qu = fst (makeQuestion rnd m cards j (?pool ! k))"
    using list_all2_nthD [OF makeMCFromCards_all2 [of rnd cards cnt n] klen] qu by blast
  have "?pool ! k \<in> set ?pool"
    using klen by (rule nth_mem)
  then have "?pool ! k \<in> set (fst (shuffle rnd n cards))"
    by (rule in_set_takeD)
  then have mem: "?pool ! k \<in> set cards"
    by (simp only: shuffle_set)
  obtain ds where ds: "mset ds \<subseteq># mset (filter (\<lambda>d. front d \<noteq> front (?pool ! k)) cards)"
      "length ds = min 3 (length (filter (\<lambda>d. front d \<noteq> front (?pool ! k)) cards))"
      "mset (q_opts qu) = mset (back (?pool ! k) # map back ds)"
    using makeQuestion_opts [of "?pool ! k" cards rnd m j] made by blast
  have "mset ds \<subseteq># mset cards - {#?pool ! k#}"
    using ds(1) filter_other_mset [OF mem] by (rule subset_mset.order_trans)
  with mem ds made show "\<exists>c ds. c \<in> set cards \<and> q_type qu = MC \<and> q_q qu = front c \<and>
             0 \<le> q_a qu \<and> q_a qu < int (length (q_opts qu)) \<and>
             q_opts qu ! nat (q_a qu) = back c \<and>
             mset ds \<subseteq># mset cards - {#c#} \<and>
             length ds = min 3 (length (filter (\<lambda>d. front d \<noteq> front c) cards)) \<and>
             mset (q_opts qu) = mset (back c # map back ds)"
    using makeQuestion_fields [of rnd m cards j "?pool ! k"]
          makeQuestion_answer [of rnd m cards j "?pool ! k"]
    by blast
next
  show "case useCardsToQuiz rnd n strat cnt cards of
      Inl alert \<Rightarrow> cardPoolOf strat cards = []
    | Inr (qs, m) \<Rightarrow> length qs = min cnt (length (cardPoolOf strat cards))"
    by (fact useCardsToQuiz_length)
qed




theorem makeMCFromCards_questions_witness:
  "fst (makeMCFromCards (\<lambda>k::nat. (7 * k + 3) mod 11 :: nat) 0
     [\<lparr>front = ''a'', back = ''b'', status = New\<rparr>,
      \<lparr>front = ''c'', back = ''d'', status = Mastered\<rparr>,
      \<lparr>front = ''e'', back = ''f'', status = NeedsReview\<rparr>] 2)
   = [\<lparr>q_id = 1, q_type = MC, q_q = ''a'', q_opts = [''d'', ''b'', ''f''], q_a = 1,
        q_explanation = CardExplanation ''b'' ''a''\<rparr>,
      \<lparr>q_id = 2, q_type = MC, q_q = ''e'', q_opts = [''d'', ''f'', ''b''], q_a = 1,
        q_explanation = CardExplanation ''f'' ''e''\<rparr>]"
proof -
  have shape: "length (fst (makeMCFromCards (\<lambda>k::nat. (7 * k + 3) mod 11 :: nat) 0
     [\<lparr>front = ''a'', back = ''b'', status = New\<rparr>,
      \<lparr>front = ''c'', back = ''d'', status = Mastered\<rparr>,
      \<lparr>front = ''e'', back = ''f'', status = NeedsReview\<rparr>] 2)) = 2"
    using makeMCFromCards_questions [of "\<lambda>k::nat. (7 * k + 3) mod 11 :: nat" 0
     "[\<lparr>front = ''a'', back = ''b'', status = New\<rparr>,
       \<lparr>front = ''c'', back = ''d'', status = Mastered\<rparr>,
       \<lparr>front = ''e'', back = ''f'', status = NeedsReview\<rparr>]" 2, THEN conjunct1]
    by simp
  have "fst (makeMCFromCards (\<lambda>k::nat. (7 * k + 3) mod 11 :: nat) 0
     [\<lparr>front = ''a'', back = ''b'', status = New\<rparr>,
      \<lparr>front = ''c'', back = ''d'', status = Mastered\<rparr>,
      \<lparr>front = ''e'', back = ''f'', status = NeedsReview\<rparr>] 2)
   = [\<lparr>q_id = 1, q_type = MC, q_q = ''a'', q_opts = [''d'', ''b'', ''f''], q_a = 1,
        q_explanation = CardExplanation ''b'' ''a''\<rparr>,
      \<lparr>q_id = 2, q_type = MC, q_q = ''e'', q_opts = [''d'', ''f'', ''b''], q_a = 1,
        q_explanation = CardExplanation ''f'' ''e''\<rparr>]"
    by code_simp
  with shape show ?thesis by simp
qed


lemma requestQuestions_fails_iff:
  "(\<exists>e. requestQuestions apiKey ai se = Inl e) \<longleftrightarrow>
     (apiKey = None \<or> apiKey = Some [] \<or>
      (case ai (quizRequest se) of
         Thrown msg \<Rightarrow> True
       | Response None \<Rightarrow> True
       | Response (Some EmptyText) \<Rightarrow> True
       | Response (Some BadText) \<Rightarrow> True
       | Response (Some (JsonText j)) \<Rightarrow> (case j of JArr xs \<Rightarrow> xs = [] | _ \<Rightarrow> True)))"
  by (auto simp: requestQuestions_def split: Outcome.splits option.splits Text.splits json.splits)

text \<open>
  C4, as amended. Quiz generation fails exactly when the API key is missing, the call to the
  service throws, the response has no text, the text is empty or is not JSON, the parsed value is
  not an array, or the array is empty. When it fails, \<open>generateKidGeniusQuiz\<close> records the
  error, clears the loading flag and changes nothing else: the stage stays what it was (the
  setup stage, when the quiz was requested there), and the questions, answers, index and score
  are untouched. The items of a non-empty array are not checked.
\<close>

theorem generateKidGeniusQuiz_failure:
  "((\<exists>e. requestQuestions apiKey ai (settings st) = Inl e) \<longleftrightarrow>
     (apiKey = None \<or> apiKey = Some [] \<or>
      (case ai (quizRequest (settings st)) of
         Thrown msg \<Rightarrow> True
       | Response None \<Rightarrow> True
       | Response (Some EmptyText) \<Rightarrow> True
       | Response (Some BadText) \<Rightarrow> True
       | Response (Some (JsonText j)) \<Rightarrow> (case j of JArr xs \<Rightarrow> xs = [] | _ \<Rightarrow> True)))) \<and>
   (requestQuestions apiKey ai (settings st) = Inl e \<longrightarrow>
      generateKidGeniusQuiz apiKey ai fromPath st
        = st\<lparr>isLoading := False, error := Some e, isFromPath := fromPath\<rparr>)"
  by (simp add: requestQuestions_fails_iff generateKidGeniusQuiz_def)

text \<open>
  At the empty array, from the initial state: the state is the initial one with the error set.
\<close>

theorem generateKidGeniusQuiz_failure_witness:
  "generateKidGeniusQuiz (Some ''key'') (\<lambda>r. Response (Some (JsonText (JArr [])))) False
     (initialKidGenius \<lparr>grade = Lop_6, subject = Toan, difficulty = De, topic = []\<rparr>)
   = (initialKidGenius \<lparr>grade = Lop_6, subject = Toan, difficulty = De, topic = []\<rparr>)
       \<lparr>error := Some NoValidQuestions\<rparr>"
  using generateKidGeniusQuiz_failure [of "Some ''key''" "\<lambda>r. Response (Some (JsonText (JArr [])))"
      "initialKidGenius \<lparr>grade = Lop_6, subject = Toan, difficulty = De, topic = []\<rparr>"
      NoValidQuestions False]
  by (simp add: requestQuestions_def initialKidGenius_def)

text \<open>
  C4 as stated fails: the response \<^verbatim>\<open>[1]\<close> does not match the expected schema, yet the quiz
  starts with the number \<open>1\<close> as its only question.
\<close>

theorem generateKidGeniusQuiz_accepts_unchecked_items:
  "\<not> conformsQuizSchema (JArr [JNum 1]) \<and>
   generateKidGeniusQuiz (Some ''key'') (\<lambda>r. Response (Some (JsonText (JArr [JNum 1])))) False
     (initialKidGenius \<lparr>grade = Lop_6, subject = Toan, difficulty = De, topic = []\<rparr>)
   = (initialKidGenius \<lparr>grade = Lop_6, subject = Toan, difficulty = De, topic = []\<rparr>)
       \<lparr>stage := Quiz, questions := [JNum 1]\<rparr>"
  by (simp add: generateKidGeniusQuiz_def requestQuestions_def initialKidGenius_def)

text \<open>
  C5, as amended. Every question that \<open>makeMCFromCards\<close> builds from flashcards is
  multiple-choice, its answer \<open>q_a\<close> is an index into its options, and the option at that index is
  the back of the card whose front is the question (the \<open>k\<close>-th card of the shuffled pool).
  Questions that come from the content generator are accepted without any check of the index.
\<close>

theorem makeMCFromCards_correctAnswer_valid:
  assumes "k < length (fst (makeMCFromCards rnd n cards cnt))"
  shows "q_type (fst (makeMCFromCards rnd n cards cnt) ! k) = MC \<and>
         0 \<le> q_a (fst (makeMCFromCards rnd n cards cnt) ! k) \<and>
         q_a (fst (makeMCFromCards rnd n cards cnt) ! k)
           < int (length (q_opts (fst (makeMCFromCards rnd n cards cnt) ! k))) \<and>
         q_q (fst (makeMCFromCards rnd n cards cnt) ! k) = front (fst (shuffle rnd n cards) ! k) \<and>
         q_opts (fst (makeMCFromCards rnd n cards cnt) ! k)
           ! nat (q_a (fst (makeMCFromCards rnd n cards cnt) ! k))
         = back (fst (shuffle rnd n cards) ! k)"
proof -
  let ?pool = "take (min cnt (length cards)) (fst (shuffle rnd n cards))"
  have klen: "k < length ?pool"
    using assms list_all2_lengthD [OF makeMCFromCards_all2 [of rnd cards cnt n]] by simp
  obtain m j where made: "fst (makeMCFromCards rnd n cards cnt) ! k
                          = fst (makeQuestion rnd m cards j (?pool ! k))"
    using list_all2_nthD [OF makeMCFromCards_all2 [of rnd cards cnt n] klen] by blast
  have "?pool ! k = fst (shuffle rnd n cards) ! k"
    using klen by simp
  with made show ?thesis
    using makeQuestion_fields [of rnd m cards j "?pool ! k"]
          makeQuestion_answer [of rnd m cards j "?pool ! k"]
    by simp
qed

theorem makeMCFromCards_correctAnswer_valid_witness:
  "(0::nat) < length (fst (makeMCFromCards (\<lambda>k::nat. (7 * k + 3) mod 11 :: nat) 0
       [\<lparr>front = ''a'', back = ''b'', status = New\<rparr>,
        \<lparr>front = ''c'', back = ''d'', status = Mastered\<rparr>] 1)) \<and>
   q_opts (fst (makeMCFromCards (\<lambda>k::nat. (7 * k + 3) mod 11 :: nat) 0
       [\<lparr>front = ''a'', back = ''b'', status = New\<rparr>,
        \<lparr>front = ''c'', back = ''d'', status = Mastered\<rparr>] 1) ! 0)
     ! nat (q_a (fst (makeMCFromCards (\<lambda>k::nat. (7 * k + 3) mod 11 :: nat) 0
       [\<lparr>front = ''a'', back = ''b'', status = New\<rparr>,
        \<lparr>front = ''c'', back = ''d'', status = Mastered\<rparr>] 1) ! 0))
   = back (fst (shuffle (\<lambda>k::nat. (7 * k + 3) mod 11 :: nat) 0
       [\<lparr>front = ''a'', back = ''b'', status = New\<rparr>,
        \<lparr>front = ''c'', back = ''d'', status = Mastered\<rparr>]) ! 0)"
proof -
  have len: "(0::nat) < length (fst (makeMCFromCards (\<lambda>k::nat. (7 * k + 3) mod 11 :: nat) 0
       [\<lparr>front = ''a'', back = ''b'', status = New\<rparr>,
        \<lparr>front = ''c'', back = ''d'', status = Mastered\<rparr>] 1))"
    by (simp add: makeMCFromCards_length)
  from makeMCFromCards_correctAnswer_valid [OF len] len show ?thesis
    by simp
qed

text \<open>
  C5 as stated fails for the content generator: a response that matches the schema, with two
  options and \<^verbatim>\<open>correctAnswerIndex\<close> 5, becomes the question of the quiz.
\<close>

theorem generator_question_index_out_of_range:
  "conformsQuizSchema (JArr [JObj [(''question'', JStr ''q''), (''options'', JArr [JStr ''a'', JStr ''b'']),
                                   (''correctAnswerIndex'', JNum 5), (''explanation'', JStr ''e'')]]) \<and>
   questions (generateKidGeniusQuiz (Some ''key'')
     (\<lambda>r. Response (Some (JsonText
        (JArr [JObj [(''question'', JStr ''q''), (''options'', JArr [JStr ''a'', JStr ''b'']),
                     (''correctAnswerIndex'', JNum 5), (''explanation'', JStr ''e'')]]))))
     False (initialKidGenius \<lparr>grade = Lop_6, subject = Toan, difficulty = De, topic = []\<rparr>))
   = [JObj [(''question'', JStr ''q''), (''options'', JArr [JStr ''a'', JStr ''b'']),
            (''correctAnswerIndex'', JNum 5), (''explanation'', JStr ''e'')]] \<and>
   \<not> validAnswerIndex (JObj [(''question'', JStr ''q''), (''options'', JArr [JStr ''a'', JStr ''b'']),
                              (''correctAnswerIndex'', JNum 5), (''explanation'', JStr ''e'')])"
  by (simp add: generateKidGeniusQuiz_def requestQuestions_def initialKidGenius_def)

lemma handleAnswerSelect_score:
  "handleAnswerSelect optionIndex st = Inr st1 \<Longrightarrow> score st1 \<le> score st + 20"
  by (auto simp: handleAnswerSelect_def Let_def split: if_splits sum.splits)

lemma handleNext_score: "score (handleNext st) = score st"
  by (simp add: handleNext_def Let_def)

lemma answerAll_score_bound:
  "answerAll chosen st = Inr st1 \<Longrightarrow> score st1 \<le> score st + 20 * int (length chosen)"
proof (induction chosen arbitrary: st)
  case Nil
  then show ?case by simp
next
  case (Cons optionIndex rest)
  from Cons.prems obtain st2 where sel: "handleAnswerSelect optionIndex st = Inr st2"
    and rest: "answerAll rest (handleNext st2) = Inr st1"
    by (auto split: sum.splits)
  from Cons.IH [OF rest] have "score st1 \<le> score st2 + 20 * int (length rest)"
    by (simp add: handleNext_score)
  with handleAnswerSelect_score [OF sel] show ?case by simp
qed

text \<open>
  C1. In \<open>KidGeniusApp\<close> a correct answer adds the constant 20, whatever the number of
  questions, and a response with any positive number of questions is accepted. With four
  questions, all answered correctly, the quiz ends with the score 80 (and by
  \<open>answerAll_score_bound\<close> no run over four questions exceeds 80).
\<close>

theorem kidGenius_four_questions_all_correct:
  "(case answerAll [0, 0, 0, 0]
      (generateKidGeniusQuiz (Some ''key'')
        (\<lambda>r. Response (Some (JsonText (JArr (replicate 4
           (JObj [(''question'', JStr ''q''), (''options'', JArr [JStr ''a'', JStr ''b'']),
                  (''correctAnswerIndex'', JNum 0), (''explanation'', JStr ''e'')]))))))
        False (initialKidGenius \<lparr>grade = Lop_6, subject = Toan, difficulty = De, topic = []\<rparr>))
    of Inr st \<Rightarrow> Some (stage st, length (questions st), score st)
     | Inl e \<Rightarrow> None)
   = Some (Result, 4, 80)"
  by (simp add: generateKidGeniusQuiz_def requestQuestions_def initialKidGenius_def
      handleAnswerSelect_def handleNext_def Let_def numeral_eq_Suc)



lemma difficulty_names_distinct:
  "De \<noteq> Trung_binh" "De \<noteq> Kho" "Trung_binh \<noteq> Kho" "De \<noteq> []" "Trung_binh \<noteq> []" "Kho \<noteq> []"
  by (simp_all add: De_def Trung_binh_def Kho_def)

lemma difficultyOrder_simps:
  "difficultyOrder De = Some 1" "difficultyOrder Trung_binh = Some 2" "difficultyOrder Kho = Some 3"
  using difficulty_names_distinct by (simp_all add: difficultyOrder_def)

lemma difficultyOrder_range: "difficultyOrder key = Some i \<Longrightarrow> 1 \<le> i \<and> i \<le> 3"
  by (auto simp: difficultyOrder_def split: if_splits)

lemma difficultyOrder_nonempty: "difficultyOrder key = Some i \<Longrightarrow> key \<noteq> []"
  using difficulty_names_distinct by (auto simp: difficultyOrder_def split: if_splits)

lemma names_not_prototype:
  "De \<notin> set objectPrototypeNames" "Trung_binh \<notin> set objectPrototypeNames"
  "Kho \<notin> set objectPrototypeNames" "Lop_6 \<notin> set objectPrototypeNames"
  "Toan \<notin> set objectPrototypeNames"
  by (simp_all add: objectPrototypeNames_def De_def Trung_binh_def Kho_def Lop_6_def Toan_def)

text \<open>The updater when the grade is an own property.\<close>

lemma unlockUpdater_own:
  assumes "prev g = Some m"
  shows "unlockUpdater g s nd prev =
           (case nd of
              None \<Rightarrow> Inr (prev, None)
            | Some n \<Rightarrow>
                (case (difficultyOrder n, levelIndex (readLevel m s)) of
                   (Some ni, Some ci) \<Rightarrow>
                     if ci < ni then Inr (prev(g \<mapsto> m(s \<mapsto> n)), Some (prev(g \<mapsto> m(s \<mapsto> n))))
                     else Inr (prev, None)
                 | _ \<Rightarrow> Inr (prev, None)))"
  using assms
  by (auto simp: unlockUpdater_def readProp_def Let_def split: option.splits
           dest: difficultyOrder_nonempty)

lemma unlockUpdater_fresh:
  assumes "prev g = None" and "g \<notin> set objectPrototypeNames"
  shows "unlockUpdater g s nd prev = unlockUpdater g s nd (prev(g \<mapsto> Map.empty))"
  using assms
  by (auto simp: unlockUpdater_def readProp_def Let_def split: option.splits)

lemma unlockUpdater_outside:
  "(\<exists>e. unlockUpdater g s nd prev = Inl e) \<longleftrightarrow> (prev g = None \<and> g \<in> set objectPrototypeNames)"
  by (auto simp: unlockUpdater_def readProp_def Let_def split: option.splits PropRead.splits)


lemma readLevel_upd_same:
  "difficultyOrder n = Some ni \<Longrightarrow> readLevel (m(s \<mapsto> n)) s = LevelName n"
  by (auto simp: readLevel_def readProp_def dest: difficultyOrder_nonempty)


text \<open>Applying the updater to its own result changes nothing and writes nothing.\<close>

lemma unlockUpdater_again_own:
  assumes "prev g = Some m" and "unlockUpdater g s nd prev = Inr (np, w)"
  shows "unlockUpdater g s nd np = Inr (np, None)"
proof -
  note first = unlockUpdater_own [where prev = prev and g = g and m = m and s = s and nd = nd, OF assms(1)]
  show ?thesis
  proof (cases w)
    case None
    with assms(2) first have "np = prev"
      by (auto split: option.splits if_splits)
    with assms(2) None show ?thesis by simp
  next
    case (Some written)
    with assms(2) first obtain n ni ci where n: "nd = Some n" "difficultyOrder n = Some ni"
      "levelIndex (readLevel m s) = Some ci" "ci < ni" "np = prev(g \<mapsto> m(s \<mapsto> n))"
      by (auto split: option.splits if_splits)
    have own: "np g = Some (m(s \<mapsto> n))" using n by simp
    show ?thesis
      using unlockUpdater_own [where prev = np and g = g and m = "m(s \<mapsto> n)" and s = s and nd = nd, OF own] n
      by (simp add: readLevel_upd_same levelIndex_def)
  qed
qed

lemma unlockUpdater_again:
  assumes "unlockUpdater g s nd prev = Inr (np, w)"
  shows "unlockUpdater g s nd np = Inr (np, None)"
proof (cases "prev g")
  case None
  with assms have fresh: "g \<notin> set objectPrototypeNames"
    using unlockUpdater_outside [of g s nd prev] by auto
  from assms unlockUpdater_fresh [where prev = prev and g = g and s = s and nd = nd] None fresh
  have upd: "unlockUpdater g s nd (prev(g \<mapsto> Map.empty)) = Inr (np, w)"
    by simp
  have own: "(prev(g \<mapsto> Map.empty)) g = Some Map.empty" by simp
  from unlockUpdater_again_own [where prev = "prev(g \<mapsto> Map.empty)" and m = Map.empty, OF own upd]
  show ?thesis .
next
  case (Some m)
  from unlockUpdater_again_own [where prev = prev and m = m, OF Some assms]
  show ?thesis .
qed


lemma unlockUpdater_cases:
  assumes "unlockUpdater g s nd prev = Inr (np, w)"
  obtains (kept) "prev g \<noteq> None" "np = prev" "w = None"
  | (created) "prev g = None" "g \<notin> set objectPrototypeNames" "np = prev(g \<mapsto> Map.empty)" "w = None"
  | (written) m n ni ci where
      "prev g = Some m \<or> (prev g = None \<and> g \<notin> set objectPrototypeNames \<and> m = Map.empty)"
      "nd = Some n" "difficultyOrder n = Some ni" "levelIndex (readLevel m s) = Some ci" "ci < ni"
      "np = prev(g \<mapsto> m(s \<mapsto> n))" "w = Some np"
proof (cases "prev g")
  case None
  with assms have fresh: "g \<notin> set objectPrototypeNames"
    using unlockUpdater_outside [of g s nd prev] by auto
  from assms unlockUpdater_fresh [where prev = prev and g = g and s = s and nd = nd] None fresh
  have upd: "unlockUpdater g s nd (prev(g \<mapsto> Map.empty)) = Inr (np, w)"
    by simp
  have own: "(prev(g \<mapsto> Map.empty)) g = Some Map.empty" by simp
  note first = unlockUpdater_own [where prev = "prev(g \<mapsto> Map.empty)" and g = g and m = Map.empty
      and s = s and nd = nd, OF own]
  show ?thesis
  proof (cases w)
    case None
    with upd first have "np = prev(g \<mapsto> Map.empty)"
      by (auto split: option.splits if_splits)
    with \<open>prev g = None\<close> fresh None show ?thesis by (intro created) simp_all
  next
    case (Some written')
    with upd first obtain n ni ci where n: "nd = Some n" "difficultyOrder n = Some ni"
      "levelIndex (readLevel Map.empty s) = Some ci" "ci < ni"
      "np = (prev(g \<mapsto> Map.empty))(g \<mapsto> Map.empty(s \<mapsto> n))" "w = Some np"
      by (auto split: option.splits if_splits)
    from n(5) have "np = prev(g \<mapsto> Map.empty(s \<mapsto> n))" by simp
    with n \<open>prev g = None\<close> fresh show ?thesis
      by (intro written [where m = Map.empty and n = n and ni = ni and ci = ci]) simp_all
  qed
next
  case (Some m)
  note first = unlockUpdater_own [where prev = prev and g = g and m = m and s = s and nd = nd, OF Some]
  show ?thesis
  proof (cases w)
    case None
    with assms first have "np = prev"
      by (auto split: option.splits if_splits)
    with Some None show ?thesis by (intro kept) simp_all
  next
    case (Some written')
    with assms first obtain n ni ci where n: "nd = Some n" "difficultyOrder n = Some ni"
      "levelIndex (readLevel m s) = Some ci" "ci < ni" "np = prev(g \<mapsto> m(s \<mapsto> n))" "w = Some np"
      by (auto split: option.splits if_splits)
    with \<open>prev g = Some m\<close> show ?thesis
      by (intro written [where m = m and n = n and ni = ni and ci = ci]) simp_all
  qed
qed


lemma unlockEffect_cases:
  assumes "unlockEffect stg sc se prev = Inr (np, w)"
  obtains (idle) "np = prev" "w = None" "\<And>p. unlockEffect stg sc se p = Inr (p, None)"
  | (updated) nd where "70 \<le> sc"
      "\<And>p. unlockEffect stg sc se p = unlockUpdater (grade se) (subject se) nd p"
  using assms
  by (auto simp: unlockEffect_def split: if_splits option.splits)

lemma unlockEffect_defined:
  assumes "grade se \<in> dom prev \<or> grade se \<notin> set objectPrototypeNames"
  shows "\<exists>np w. unlockEffect stg sc se prev = Inr (np, w)"
proof (cases "unlockEffect stg sc se prev")
  case (Inl e)
  then obtain nd where "unlockUpdater (grade se) (subject se) nd prev = Inl e"
    by (auto simp: unlockEffect_def split: if_splits option.splits)
  with assms show ?thesis
    using unlockUpdater_outside [of "grade se" "subject se" nd prev] by auto
next
  case (Inr r)
  then show ?thesis by (cases r) simp
qed

lemma highestUnlockedFor_own:
  "prev g = Some m \<Longrightarrow> highestUnlockedFor prev g s = Inr (readLevel m s)"
  by (simp add: highestUnlockedFor_def readProp_def)

lemma highestUnlockedFor_undefined:
  "prev g = None \<Longrightarrow> g \<notin> set objectPrototypeNames \<Longrightarrow> highestUnlockedFor prev g s = Inr (LevelName De)"
  by (simp add: highestUnlockedFor_def readProp_def)

lemma readLevel_empty:
  "readLevel Map.empty s = (if s \<in> set objectPrototypeNames then BuiltinValue else LevelName De)"
  by (simp add: readLevel_def readProp_def)

lemma levelIndex_Some:
  "levelIndex lv = Some i \<Longrightarrow> \<exists>l. lv = LevelName l \<and> difficultyOrder l = Some i"
  by (cases lv) (simp_all add: levelIndex_def)

lemma unlockUpdater_stored:
  assumes "unlockUpdater g s nd prev = Inr (np, w)"
  shows "(w = None \<longrightarrow> (\<forall>g' s'. storedLevel np g' s' = storedLevel prev g' s')) \<and>
         (w \<noteq> None \<longrightarrow>
            w = Some np \<and>
            (\<forall>g' s'. (g', s') \<noteq> (g, s) \<longrightarrow> storedLevel np g' s' = storedLevel prev g' s') \<and>
            (\<exists>old ci new ni.
               highestUnlockedFor prev g s = Inr (LevelName old) \<and> difficultyOrder old = Some ci \<and>
               storedLevel np g s = Some new \<and> difficultyOrder new = Some ni \<and> ci < ni))"
  using assms
proof (cases rule: unlockUpdater_cases)
  case kept
  then show ?thesis by simp
next
  case created
  then show ?thesis by (auto simp: storedLevel_def)
next
  case (written m n ni ci)
  from written(4) obtain old where old: "readLevel m s = LevelName old" "difficultyOrder old = Some ci"
    by (auto dest: levelIndex_Some)
  have read: "highestUnlockedFor prev g s = Inr (LevelName old)"
    using written(1) old
    by (auto simp: highestUnlockedFor_own highestUnlockedFor_undefined readLevel_empty split: if_splits)
  have other: "storedLevel np g' s' = storedLevel prev g' s'" if "(g', s') \<noteq> (g, s)" for g' s'
    using written(1,6) that by (auto simp: storedLevel_def)
  have new: "storedLevel np g s = Some n"
    using written(6) by (simp add: storedLevel_def)
  from written(7) other read old(2) new written(3,5) show ?thesis
    by blast
qed



text \<open>
  C2. Whenever the grade is an own key of the mapping or is not a name of
  \<^verbatim>\<open>Object.prototype\<close> (so that the code stays within the mapping), the unlock policy
  returns a mapping, and applying it again to that mapping with the same stage, score and
  settings returns the same mapping and writes nothing. A tier is written only when it lies
  strictly above the tier read for the grade and subject before: without a write every stored
  tier is what it was; a write changes the stored tier of that grade and subject only, to a tier
  whose index is greater than the index read before.
\<close>

theorem unlockPolicy_idempotent:
  assumes "grade se \<in> dom prev \<or> grade se \<notin> set objectPrototypeNames"
  shows "\<exists>np w. unlockEffect stg sc se prev = Inr (np, w) \<and>
           unlockPolicy stg sc se prev = Inr np \<and>
           unlockPolicy stg sc se np = Inr np \<and>
           unlockEffect stg sc se np = Inr (np, None) \<and>
           (w = None \<longrightarrow> (\<forall>g s. storedLevel np g s = storedLevel prev g s)) \<and>
           (w \<noteq> None \<longrightarrow>
              w = Some np \<and>
              (\<forall>g s. (g, s) \<noteq> (grade se, subject se) \<longrightarrow>
                     storedLevel np g s = storedLevel prev g s) \<and>
              (\<exists>old ci new ni.
                 highestUnlockedFor prev (grade se) (subject se) = Inr (LevelName old) \<and>
                 difficultyOrder old = Some ci \<and>
                 storedLevel np (grade se) (subject se) = Some new \<and>
                 difficultyOrder new = Some ni \<and> ci < ni))"
proof -
  from unlockEffect_defined [OF assms]
  obtain np w where eff: "unlockEffect stg sc se prev = Inr (np, w)" by blast
  have pol: "unlockPolicy stg sc se prev = Inr np"
    by (simp add: unlockPolicy_def eff)
  from eff show ?thesis
  proof (cases rule: unlockEffect_cases)
    case idle
    with eff pol show ?thesis by (simp add: unlockPolicy_def)
  next
    case (updated nd)
    from eff updated(2) have upd: "unlockUpdater (grade se) (subject se) nd prev = Inr (np, w)"
      by simp
    from unlockUpdater_again [OF upd] updated(2)
    have again: "unlockEffect stg sc se np = Inr (np, None)" by simp
    then have "unlockPolicy stg sc se np = Inr np"
      by (simp add: unlockPolicy_def)
    with eff pol again unlockUpdater_stored [OF upd] show ?thesis
      by simp
  qed
qed

text \<open>
  From the empty mapping, a score of 80 at the easy tier writes the medium tier for the default
  grade and subject, and applying the policy again returns the same mapping without a write.
\<close>

theorem unlockPolicy_idempotent_witness:
  "unlockEffect Result 80
      \<lparr>grade = Lop_6, subject = Toan, difficulty = De, topic = []\<rparr>
      Map.empty
     = Inr ([Lop_6 \<mapsto> [Toan \<mapsto> Trung_binh]], Some [Lop_6 \<mapsto> [Toan \<mapsto> Trung_binh]]) \<and>
   unlockEffect Result 80
       \<lparr>grade = Lop_6, subject = Toan, difficulty = De, topic = []\<rparr>
       [Lop_6 \<mapsto> [Toan \<mapsto> Trung_binh]]
     = Inr ([Lop_6 \<mapsto> [Toan \<mapsto> Trung_binh]], None)"
proof -
  have ok: "grade
      \<lparr>grade = Lop_6, subject = Toan, difficulty = De, topic = []\<rparr>
      \<in> dom (Map.empty :: UnlockProgress) \<or>
            grade
                \<lparr>grade = Lop_6, subject = Toan, difficulty = De, topic = []\<rparr>
                \<notin> set objectPrototypeNames"
    by (simp add: names_not_prototype)
  have first: "unlockEffect Result 80
      \<lparr>grade = Lop_6, subject = Toan, difficulty = De, topic = []\<rparr>
      Map.empty
     = Inr ([Lop_6 \<mapsto> [Toan \<mapsto> Trung_binh]], Some [Lop_6 \<mapsto> [Toan \<mapsto> Trung_binh]])"
    by (simp add: unlockEffect_def unlockUpdater_def readProp_def readLevel_def levelIndex_def
        difficultyOrder_simps difficultyKeys_def Let_def difficulty_names_distinct
        names_not_prototype)
  from unlockPolicy_idempotent [OF ok, of Result 80] first show ?thesis
    by auto
qed




lemma wrongAnswerEntry_conforms:
  "conformsQuestion q \<Longrightarrow> \<exists>entry. wrongAnswerEntry q a = Inr entry"
  by (cases q)
     (auto simp: wrongAnswerEntry_def Let_def split: option.splits json.splits)

lemma wrongAnswersFrom_conforms:
  "list_all conformsQuestion qs \<Longrightarrow> \<exists>ws. wrongAnswersFrom i qs ua = Inr ws"
proof (induction qs arbitrary: i)
  case Nil
  then show ?case by simp
next
  case (Cons q qs)
  then obtain entry ws where "wrongAnswerEntry q (ua i) = Inr entry"
      and "wrongAnswersFrom (Suc i) qs ua = Inr ws"
    using wrongAnswerEntry_conforms [of q "ua i"] by fastforce
  then show ?case by simp
qed

text \<open>
  C8. When the tutor feedback runs for a finished quiz (\<open>runWithApiKey\<close> ran the callback) and
  the list of wrong answers was computed: if the list is empty and the score is at least 100,
  the feedback is the fixed celebratory message and no request is sent to the service; in every
  other case exactly one request is sent, carrying the score and the wrong answers. By
  \<open>wrongAnswersFrom_conforms\<close> the list is computed for all questions that match the schema.
\<close>

theorem tutorFeedback_perfect_or_service:
  assumes "feedbackOnFinish apiKey ai st = Inr run"
    and "wrongAnswersFrom 0 (questions st) (userAnswers st) = Inr ws"
  shows "(ws = [] \<and> 100 \<le> score st \<longrightarrow> feedbackData run = Celebration \<and> requests run = []) \<and>
         (\<not> (ws = [] \<and> 100 \<le> score st) \<longrightarrow> requests run = [TutorRequest (score st) ws])"
proof -
  from assms(1) have key: "apiKey \<noteq> None" "apiKey \<noteq> Some []"
    and run: "run = generateAITutorFeedback apiKey ai (settings st) (score st) (questions st) (userAnswers st)"
    by (auto simp: feedbackOnFinish_def runWithApiKey_def split: if_splits)
  show ?thesis
    using key assms(2)
    by (auto simp: run generateAITutorFeedback_def tutorFeedback_def
             split: Outcome.splits option.splits sum.splits)
qed

text \<open>
  Two finished quizzes of two questions: with both answers right and the score 100 the fixed
  message is returned although the service is unreachable; with one wrong answer the request is
  sent and the service's answer becomes the feedback.
\<close>

theorem tutorFeedback_perfect_or_service_witness:
  "map_sum id (\<lambda>run. (feedbackData run, requests run))
     (feedbackOnFinish (Some ''key'') (\<lambda>r. Thrown ''offline'')
       ((initialKidGenius \<lparr>grade = Lop_6, subject = Toan, difficulty = De, topic = []\<rparr>)
        \<lparr>stage := Result,
         questions := replicate 2 (JObj [(''question'', JStr ''q''), (''options'', JArr [JStr ''a'', JStr ''b'']),
             (''correctAnswerIndex'', JNum 0), (''explanation'', JStr ''e'')]),
         userAnswers := [0 \<mapsto> 0, 1 \<mapsto> 0], score := 100\<rparr>))
   = Inr (Celebration, []) \<and>
   map_sum id (\<lambda>run. (feedbackData run, requests run))
     (feedbackOnFinish (Some ''key'') (\<lambda>r. Response (Some (JsonText (JObj []))))
       ((initialKidGenius \<lparr>grade = Lop_6, subject = Toan, difficulty = De, topic = []\<rparr>)
        \<lparr>stage := Result,
         questions := replicate 2 (JObj [(''question'', JStr ''q''), (''options'', JArr [JStr ''a'', JStr ''b'']),
             (''correctAnswerIndex'', JNum 0), (''explanation'', JStr ''e'')]),
         userAnswers := [0 \<mapsto> 0, 1 \<mapsto> 1], score := 20\<rparr>))
   = Inr (FromService (JObj []),
          [TutorRequest 20 [WrongAnswer (JObj [(''question'', JStr ''q''), (''options'', JArr [JStr ''a'', JStr ''b'']),
             (''correctAnswerIndex'', JNum 0), (''explanation'', JStr ''e'')]) (Some 1)]])"
proof -
  have ran1: "feedbackOnFinish (Some ''key'') (\<lambda>r. Thrown ''offline'')
       ((initialKidGenius \<lparr>grade = Lop_6, subject = Toan, difficulty = De, topic = []\<rparr>)
        \<lparr>stage := Result,
         questions := replicate 2 (JObj [(''question'', JStr ''q''), (''options'', JArr [JStr ''a'', JStr ''b'']),
             (''correctAnswerIndex'', JNum 0), (''explanation'', JStr ''e'')]),
         userAnswers := [0 \<mapsto> 0, 1 \<mapsto> 0], score := 100\<rparr>)
     = Inr (generateAITutorFeedback (Some ''key'') (\<lambda>r. Thrown ''offline'') \<lparr>grade = Lop_6, subject = Toan, difficulty = De, topic = []\<rparr> 100
         (replicate 2 (JObj [(''question'', JStr ''q''), (''options'', JArr [JStr ''a'', JStr ''b'']),
             (''correctAnswerIndex'', JNum 0), (''explanation'', JStr ''e'')])) [0 \<mapsto> 0, 1 \<mapsto> 0])"
    by (simp add: feedbackOnFinish_def runWithApiKey_def initialKidGenius_def)
  have ws1: "wrongAnswersFrom 0 (questions ((initialKidGenius \<lparr>grade = Lop_6, subject = Toan, difficulty = De, topic = []\<rparr>)
        \<lparr>stage := Result,
         questions := replicate 2 (JObj [(''question'', JStr ''q''), (''options'', JArr [JStr ''a'', JStr ''b'']),
             (''correctAnswerIndex'', JNum 0), (''explanation'', JStr ''e'')]),
         userAnswers := [0 \<mapsto> 0, 1 \<mapsto> 0], score := 100\<rparr>)) (userAnswers ((initialKidGenius \<lparr>grade = Lop_6, subject = Toan, difficulty = De, topic = []\<rparr>)
        \<lparr>stage := Result,
         questions := replicate 2 (JObj [(''question'', JStr ''q''), (''options'', JArr [JStr ''a'', JStr ''b'']),
             (''correctAnswerIndex'', JNum 0), (''explanation'', JStr ''e'')]),
         userAnswers := [0 \<mapsto> 0, 1 \<mapsto> 0], score := 100\<rparr>)) = Inr []"
    by (simp add: initialKidGenius_def wrongAnswerEntry_def numeral_2_eq_2)
  have ran2: "feedbackOnFinish (Some ''key'') (\<lambda>r. Response (Some (JsonText (JObj []))))
       ((initialKidGenius \<lparr>grade = Lop_6, subject = Toan, difficulty = De, topic = []\<rparr>)
        \<lparr>stage := Result,
         questions := replicate 2 (JObj [(''question'', JStr ''q''), (''options'', JArr [JStr ''a'', JStr ''b'']),
             (''correctAnswerIndex'', JNum 0), (''explanation'', JStr ''e'')]),
         userAnswers := [0 \<mapsto> 0, 1 \<mapsto> 1], score := 20\<rparr>)
     = Inr (generateAITutorFeedback (Some ''key'') (\<lambda>r. Response (Some (JsonText (JObj [])))) \<lparr>grade = Lop_6, subject = Toan, difficulty = De, topic = []\<rparr> 20
         (replicate 2 (JObj [(''question'', JStr ''q''), (''options'', JArr [JStr ''a'', JStr ''b'']),
             (''correctAnswerIndex'', JNum 0), (''explanation'', JStr ''e'')])) [0 \<mapsto> 0, 1 \<mapsto> 1])"
    by (simp add: feedbackOnFinish_def runWithApiKey_def initialKidGenius_def)
  have ws2: "wrongAnswersFrom 0 (questions ((initialKidGenius \<lparr>grade = Lop_6, subject = Toan, difficulty = De, topic = []\<rparr>)
        \<lparr>stage := Result,
         questions := replicate 2 (JObj [(''question'', JStr ''q''), (''options'', JArr [JStr ''a'', JStr ''b'']),
             (''correctAnswerIndex'', JNum 0), (''explanation'', JStr ''e'')]),
         userAnswers := [0 \<mapsto> 0, 1 \<mapsto> 1], score := 20\<rparr>)) (userAnswers ((initialKidGenius \<lparr>grade = Lop_6, subject = Toan, difficulty = De, topic = []\<rparr>)
        \<lparr>stage := Result,
         questions := replicate 2 (JObj [(''question'', JStr ''q''), (''options'', JArr [JStr ''a'', JStr ''b'']),
             (''correctAnswerIndex'', JNum 0), (''explanation'', JStr ''e'')]),
         userAnswers := [0 \<mapsto> 0, 1 \<mapsto> 1], score := 20\<rparr>))
     = Inr [WrongAnswer (JObj [(''question'', JStr ''q''), (''options'', JArr [JStr ''a'', JStr ''b'']),
             (''correctAnswerIndex'', JNum 0), (''explanation'', JStr ''e'')]) (Some 1)]"
    by (simp add: initialKidGenius_def wrongAnswerEntry_def numeral_2_eq_2)
  from tutorFeedback_perfect_or_service [OF ran1 ws1] tutorFeedback_perfect_or_service [OF ran2 ws2]
  show ?thesis
    by (simp add: feedbackOnFinish_def runWithApiKey_def initialKidGenius_def
        generateAITutorFeedback_def tutorFeedback_def wrongAnswerEntry_def numeral_2_eq_2)
qed


lemma initialSettings_default:
  assumes "store (''kidGeniusSettings_'' @ uid) = None \<or>
           store (''kidGeniusSettings_'' @ uid) = Some EmptyText \<or>
           store (''kidGeniusSettings_'' @ uid) = Some BadText"
  shows "initialSettings store uid = defaultSettings"
  using assms by (auto simp: initialSettings_def truthyItem_def Let_def)

lemma loadProgress_default:
  assumes "store (''kidGeniusProgress_'' @ uid) = None \<or>
           store (''kidGeniusProgress_'' @ uid) = Some EmptyText \<or>
           store (''kidGeniusProgress_'' @ uid) = Some BadText"
  shows "fst (loadProgress store uid) = None"
  using assms by (auto simp: loadProgress_def truthyItem_def Let_def)

lemma loadSession_corrupt:
  assumes "store ''eduquiz:session'' = Some BadText"
  shows "loadSession confirmed store st
         = noteSavedCards (store(''eduquiz:session'' := None)) st"
  using assms by (simp add: loadSession_def truthyItem_def Let_def)

lemma mountEffect_missing_keys:
  assumes "store ''eduquiz:assignments'' = None" and "store ''eduquiz:submissions'' = None"
    and "store ''eduquiz:session'' = None"
  shows "mountEffect None confirmed store st
         = Inr (st\<lparr>qm_assignments := JArr [], qm_submissions := JObj [],
                   qm_hasSavedCards := truthyItem (store ''eduquiz:saved_cards'')\<rparr>, store, [])"
  using assms
  by (simp add: mountEffect_def parseItemOr_def truthyItem_def loadSession_def noteSavedCards_def)

text \<open>
  C9. The reads of \<open>KidGeniusApp\<close> fall back to their defaults for a missing, empty or corrupt
  key (\<open>initialSettings_default\<close>, \<open>loadProgress_default\<close>), and so does the session read of
  the mount effect of \<open>QuizMasterApp\<close> (\<open>loadSession_corrupt\<close>). Its reads of the assignments
  and of the submissions do so for a missing key only (\<open>mountEffect_missing_keys\<close>): they parse
  outside any \<^verbatim>\<open>try\<close>, so a corrupt text under either key makes the effect end with the
  parser's exception.
\<close>

theorem mountEffect_corrupt_assignments:
  "mountEffect None False [''eduquiz:assignments'' \<mapsto> BadText] initialQuizMaster = Inl SyntaxError \<and>
   mountEffect (Some ''k3x9'') False [''eduquiz:assignments'' \<mapsto> BadText] initialQuizMaster
     = Inl SyntaxError \<and>
   mountEffect None False [''eduquiz:submissions'' \<mapsto> BadText] initialQuizMaster = Inl SyntaxError"
  by (simp add: mountEffect_def openAssignment_def parseItemOr_def truthyItem_def)


text \<open>
  The file export loses nothing: reading the text of \<open>exportJSON\<close> back gives the same cards
  in the same order, for every card set.
\<close>

lemma unhex_hexDigit: "d < 16 \<Longrightarrow> unhex (hexDigit d) = d"
proof -
  assume "d < 16"
  then have "d = 0 \<or> d = 1 \<or> d = 2 \<or> d = 3 \<or> d = 4 \<or> d = 5 \<or> d = 6 \<or> d = 7 \<or> d = 8 \<or> d = 9
             \<or> d = 10 \<or> d = 11 \<or> d = 12 \<or> d = 13 \<or> d = 14 \<or> d = 15"
    by arith
  then show ?thesis
    by (elim disjE) (simp_all add: unhex_def hexDigit_def)
qed


lemma quoteChar_control:
  assumes "(of_char c :: nat) < 0x20"
    and "c \<noteq> CHR 0x08" "c \<noteq> CHR 0x09" "c \<noteq> CHR 0x0A" "c \<noteq> CHR 0x0C" "c \<noteq> CHR 0x0D"
  shows "quoteChar c = [CHR 0x5C, CHR ''u'', CHR ''0'', CHR ''0'',
              hexDigit (of_char c div 16), hexDigit (of_char c mod 16)]"
proof -
  have "c \<noteq> CHR 0x22" "c \<noteq> CHR 0x5C" using assms(1) by auto
  with assms show ?thesis by (simp add: quoteChar_def)
qed

lemma unquote_step:
  "unquoteBody (quoteChar c @ rest) = map_option (apfst ((#) c)) (unquoteBody rest)"
proof (cases "(of_char c :: nat) < 0x20 \<and> c \<noteq> CHR 0x08 \<and> c \<noteq> CHR 0x09 \<and> c \<noteq> CHR 0x0A
               \<and> c \<noteq> CHR 0x0C \<and> c \<noteq> CHR 0x0D")
  case True
  let ?n = "of_char c :: nat"
  from True have q: "quoteChar c = [CHR 0x5C, CHR ''u'', CHR ''0'', CHR ''0'',
              hexDigit (?n div 16), hexDigit (?n mod 16)]"
    by (intro quoteChar_control) simp_all
  have "?n div 16 < 16" "?n mod 16 < 16" using True by auto
  then have "unhex (hexDigit (?n div 16)) * 16 + unhex (hexDigit (?n mod 16)) = ?n"
    by (simp add: unhex_hexDigit)
  then show ?thesis
    by (simp add: q)
next
  case False
  then show ?thesis
    by (auto simp: quoteChar_def unescape_def)
qed

lemma unquote_quote:
  "unquoteBody (concat (map quoteChar s) @ CHR 0x22 # rest) = Some (s, rest)"
  by (induction s) (simp_all add: unquote_step)

lemma stripPrefix_append: "stripPrefix p (p @ rest) = Some rest"
  by (simp add: stripPrefix_def)

lemma readQuoted_quoteJSON: "readQuoted (quoteJSON s @ rest) = Some (s, rest)"
  by (simp add: readQuoted_def quoteJSON_def unquote_quote)

lemma readMember_quoted: "readMember key (key @ quoteJSON s @ rest) = Some (s, rest)"
  by (simp add: readMember_def stripPrefix_append readQuoted_quoteJSON)

lemma statusOfText_statusText: "statusOfText (statusText st) = Some st"
  by (cases st) (simp_all add: statusOfText_def statusText_def)

lemma cardJSON_parts:
  "cardJSON c @ rest =
     frontKey @ quoteJSON (front c) @ backKey @ quoteJSON (back c) @ statusKey
       @ quoteJSON (statusText (status c)) @ closeCard @ rest"
  by (simp add: cardJSON_def frontKey_def backKey_def statusKey_def closeCard_def)

lemma readCard_cardJSON: "readCard (cardJSON c @ rest) = Some (c, rest)"
  unfolding cardJSON_parts readCard_def
  by (simp add: readMember_quoted statusOfText_statusText stripPrefix_append)

lemma cardItems_Cons:
  "cardItems (c # cs) = cardJSON c @ (if cs = [] then [] else '','' @ newline @ ''  '' @ cardItems cs)"
  by (cases cs) simp_all

lemma cardJSON_nonempty: "cardJSON c \<noteq> []"
  by (simp add: cardJSON_def)

lemma length_cardItems: "length cs \<le> length (cardItems cs)"
proof (induction cs)
  case Nil
  then show ?case by simp
next
  case (Cons c cs)
  have "1 \<le> length (cardJSON c)"
    using cardJSON_nonempty [of c] by (cases "cardJSON c") simp_all
  with Cons show ?case
    by (simp add: cardItems_Cons)
qed

lemma readItems_cardItems:
  "cs \<noteq> [] \<Longrightarrow> length cs \<le> k \<Longrightarrow> readItems k (cardItems cs @ newline @ '']'') = Some cs"
proof (induction cs arbitrary: k)
  case Nil
  then show ?case by simp
next
  case (Cons c cs)
  then obtain k' where k: "k = Suc k'" and k': "length cs \<le> k'"
    by (cases k) simp_all
  show ?case
  proof (cases "cs = []")
    case True
    then show ?thesis
      by (simp add: k readCard_cardJSON)
  next
    case False
    let ?sep = "'','' @ newline @ ''  ''"
    let ?tail = "cardItems cs @ newline @ '']''"
    have items: "cardItems (c # cs) @ newline @ '']'' = cardJSON c @ (?sep @ ?tail)"
      using False by (simp add: cardItems_Cons)
    have card: "readCard (cardJSON c @ (?sep @ ?tail)) = Some (c, ?sep @ ?tail)"
      by (rule readCard_cardJSON)
    have differ: "?sep @ ?tail \<noteq> newline @ '']''"
      by (simp add: newline_def)
    have strip: "stripPrefix ?sep (?sep @ ?tail) = Some ?tail"
      by (rule stripPrefix_append)
    have rest: "readItems k' ?tail = Some cs"
      using Cons.IH [OF False k'] .
    show ?thesis
      unfolding items k readItems.simps card
      using differ strip rest by simp
  qed
qed

lemma importJSON_exportJSON: "importJSON (exportJSON cards) = Some cards"
proof (cases "cards = []")
  case True
  then show ?thesis by (simp add: importJSON_def exportJSON_def)
next
  case False
  have e: "exportJSON cards = (''['' @ newline @ ''  '') @ cardItems cards @ newline @ '']''"
    using False by (simp add: exportJSON_def)
  have strip: "stripPrefix (''['' @ newline @ ''  '') (exportJSON cards)
               = Some (cardItems cards @ newline @ '']'')"
    unfolding e by (rule stripPrefix_append)
  have ne: "exportJSON cards \<noteq> ''[]''"
    unfolding e by (simp add: newline_def)
  have "length cards \<le> length (exportJSON cards)"
    using length_cardItems [of cards] unfolding e by simp
  from readItems_cardItems [OF False this]
  have "readItems (length (exportJSON cards)) (cardItems cards @ newline @ '']'') = Some cards" .
  with strip ne show ?thesis
    by (simp add: importJSON_def)
qed

text \<open>
  C7. The share link is \<^verbatim>\<open>btoa\<close> of the JSON text of the pairs, and \<^verbatim>\<open>btoa\<close> throws
  for every character above U+00FF. For a set with one card whose front is the Vietnamese
  name of the easy tier, the encoding ends with the exception and no link is made, so this
  export cannot be read back; the file export of the same set can
  (\<open>importJSON_exportJSON\<close>).
\<close>

theorem shareSet_rejects_vietnamese_text:
  "shareSet [\<lparr>front = De, back = ''easy'', status = New\<rparr>] = Inl InvalidCharacterError"
  by (simp add: shareSet_def btoa_def stringifyPairs_def pairJSON_def quoteJSON_def quoteChar_def
      De_def Let_def)

end
